theory Spec2Isabelle
  imports Complex_Main
begin

section \<open>Conventions\<close>

text \<open>
  The learning core is Python over numpy and torch.  Floating-point numbers are modelled
  by \<^typ>\<open>real\<close>: the properties below are the algebraic ones, rounding, infinities and
  NaN are outside the model.  A one-dimensional array is a \<^typ>\<open>real list\<close>, a
  two-dimensional array is the list of its rows.  Sizes, counters and agent indices are
  natural numbers.  Every exception the code can raise is a value of \<open>py_error\<close>, and a
  function that can raise returns \<open>py_error + 'a\<close> with \<open>Inl\<close> the exception; an
  exception abandons the call, so no state is returned with it.  Random draws are inputs
  of the model: the indices of \<open>np.random.choice\<close> and the initial weights, constrained
  by a predicate that says which draws are possible, and the standard normal draw from
  which \<open>np.random.normal\<close> computes its result.
\<close>

datatype py_error = ZeroDivisionError | ValueError | IndexError | RuntimeError

definition bind_e :: "'e + 'a \<Rightarrow> ('a \<Rightarrow> 'e + 'b) \<Rightarrow> 'e + 'b" where
  "bind_e m f = (case m of Inl e \<Rightarrow> Inl e | Inr x \<Rightarrow> f x)"

fun map_e :: "('a \<Rightarrow> 'e + 'b) \<Rightarrow> 'a list \<Rightarrow> 'e + 'b list" where
  "map_e f [] = Inr []"
| "map_e f (x # xs) =
     (case f x of
        Inl e \<Rightarrow> Inl e
      | Inr y \<Rightarrow> (case map_e f xs of Inl e \<Rightarrow> Inl e | Inr ys \<Rightarrow> Inr (y # ys)))"


section \<open>buffer.py: the replay buffer\<close>

record ReplayBuffer =
  mem_size :: nat
  mem_cntr :: nat
  state_memory :: "real list list"
  action_memory :: "real list list"
  reward_memory :: "real list"
  others_states :: "real list list"
  others_actions :: "real list list"

text \<open>
  \<open>ReplayBuffer.__init__\<close>.  \<open>np.zeros\<close> raises ValueError on a negative dimension,
  which \<open>input_shape*(num_agents-1)\<close> is for \<open>num_agents = 0\<close> and a positive width.
\<close>

definition ReplayBuffer_init :: "nat \<Rightarrow> nat \<Rightarrow> nat \<Rightarrow> nat \<Rightarrow> py_error + ReplayBuffer" where
  "ReplayBuffer_init max_size input_shape n_actions num_agents =
     (if num_agents = 0 \<and> (0 < input_shape \<or> 0 < n_actions) then Inl ValueError
      else Inr \<lparr>mem_size = max_size, mem_cntr = 0,
                state_memory = replicate max_size (replicate input_shape 0),
                action_memory = replicate max_size (replicate n_actions 0),
                reward_memory = replicate max_size 0,
                others_states = replicate max_size (replicate (input_shape * (num_agents - 1)) 0),
                others_actions = replicate max_size (replicate (n_actions * (num_agents - 1)) 0)\<rparr>)"

text \<open>
  \<open>array[index] = value\<close> for a row of a two-dimensional array: numpy broadcasts a value
  of length 1 (or a scalar, modelled as a list of length 1) over the row, and raises
  ValueError for any other length that is not the row's; an index out of the array
  raises IndexError.
\<close>

definition broadcast_row :: "nat \<Rightarrow> real list \<Rightarrow> py_error + real list" where
  "broadcast_row w v =
     (if length v = w then Inr v
      else if length v = 1 then Inr (replicate w (hd v))
      else Inl ValueError)"

definition set_row :: "real list list \<Rightarrow> nat \<Rightarrow> real list \<Rightarrow> py_error + real list list" where
  "set_row arr index v =
     (if index < length arr
      then (case broadcast_row (length (arr ! index)) v of
              Inl e \<Rightarrow> Inl e
            | Inr r \<Rightarrow> Inr (arr[index := r]))
      else Inl IndexError)"

definition set_item :: "real list \<Rightarrow> nat \<Rightarrow> real \<Rightarrow> py_error + real list" where
  "set_item arr index v = (if index < length arr then Inr (arr[index := v]) else Inl IndexError)"

text \<open>
  \<open>store_transition\<close>.  \<open>mem_cntr % mem_size\<close> raises ZeroDivisionError for a buffer
  of capacity 0.  The statements run in the source's order.
\<close>

definition store_transition ::
  "ReplayBuffer \<Rightarrow> real list \<Rightarrow> real list \<Rightarrow> real \<Rightarrow> real list \<Rightarrow> real list
     \<Rightarrow> py_error + ReplayBuffer" where
  "store_transition b state action reward others_s others_a =
     (if mem_size b = 0 then Inl ZeroDivisionError
      else
        let index = mem_cntr b mod mem_size b in
        bind_e (set_row (state_memory b) index state) (\<lambda>sm.
        bind_e (set_row (action_memory b) index action) (\<lambda>am.
        bind_e (set_item (reward_memory b) index reward) (\<lambda>rm.
        bind_e (set_row (others_states b) index others_s) (\<lambda>osm.
        bind_e (set_row (others_actions b) index others_a) (\<lambda>oam.
          Inr (b\<lparr>state_memory := sm, action_memory := am, reward_memory := rm,
                 mem_cntr := mem_cntr b + 1,
                 others_states := osm, others_actions := oam\<rparr>)))))))"

text \<open>
  A sampled batch is the tuple \<open>(states, actions, rewards, others_states, others_actions)\<close>
  that both sampling methods return.
\<close>

type_synonym batch = "real list list \<times> real list list \<times> real list \<times> real list list \<times> real list list"

text \<open>
  \<open>np.random.choice(a, size)\<close> returns \<open>size\<close> indices below \<open>a\<close>, drawn with
  replacement; \<open>random_choice a n batch\<close> says that \<open>batch\<close> is a possible result for
  \<open>size = n\<close>.  It raises ValueError when \<open>a = 0\<close> and \<open>size > 0\<close>.  \<open>array[batch]\<close> gathers the rows at
  the indices of \<open>batch\<close>, and raises IndexError on an index out of the array.
\<close>

definition random_choice :: "nat \<Rightarrow> nat \<Rightarrow> nat list \<Rightarrow> bool" where
  "random_choice a n batch = (length batch = n \<and> list_all (\<lambda>i. i < a) batch)"

definition gather :: "'a list \<Rightarrow> nat list \<Rightarrow> py_error + 'a list" where
  "gather arr batch = map_e (\<lambda>i. if i < length arr then Inr (arr ! i) else Inl IndexError) batch"

definition sample_buffer :: "ReplayBuffer \<Rightarrow> nat \<Rightarrow> nat list \<Rightarrow> py_error + batch" where
  "sample_buffer b batch_size batch =
     (let max_mem = min (mem_cntr b) (mem_size b) in
      if max_mem = 0 \<and> 0 < batch_size then Inl ValueError
      else
        bind_e (gather (state_memory b) batch) (\<lambda>states.
        bind_e (gather (action_memory b) batch) (\<lambda>actions.
        bind_e (gather (reward_memory b) batch) (\<lambda>rewards.
        bind_e (gather (others_states b) batch) (\<lambda>others_s.
        bind_e (gather (others_actions b) batch) (\<lambda>others_a.
          Inr (states, actions, rewards, others_s, others_a)))))))"

text \<open>
  A Python slice \<open>array[lo:hi]\<close> with \<open>0 \<le> lo\<close>: the entries at the indices from \<open>lo\<close>
  up to \<open>hi\<close>, as far as the array has them; it never raises.
\<close>

definition slice :: "'a list \<Rightarrow> nat \<Rightarrow> nat \<Rightarrow> 'a list" where
  "slice arr lo hi = take (hi - lo) (drop lo arr)"

definition sample_last_buffer :: "ReplayBuffer \<Rightarrow> nat \<Rightarrow> batch" where
  "sample_last_buffer b batch_size =
     (let batch_size = (if mem_cntr b < batch_size then mem_cntr b else batch_size) in
      (slice (state_memory b) (mem_cntr b - batch_size) (mem_cntr b),
       slice (action_memory b) (mem_cntr b - batch_size) (mem_cntr b),
       slice (reward_memory b) (mem_cntr b - batch_size) (mem_cntr b),
       slice (others_states b) (mem_cntr b - batch_size) (mem_cntr b),
       slice (others_actions b) (mem_cntr b - batch_size) (mem_cntr b)))"

text \<open>
  A transition is what one call of \<open>store_transition\<close> stores; \<open>store_all\<close> is a sequence
  of calls on one buffer.
\<close>

type_synonym transition = "real list \<times> real list \<times> real \<times> real list \<times> real list"

fun store_all :: "ReplayBuffer \<Rightarrow> transition list \<Rightarrow> py_error + ReplayBuffer" where
  "store_all b [] = Inr b"
| "store_all b ((s, a, r, os, oa) # ts) =
     (case store_transition b s a r os oa of Inl e \<Rightarrow> Inl e | Inr b' \<Rightarrow> store_all b' ts)"

text \<open>
  The shapes \<open>__init__\<close> gives the arrays, which every store keeps, and the transitions
  that fit them without broadcasting.
\<close>

definition has_shape :: "nat \<Rightarrow> nat \<Rightarrow> real list list \<Rightarrow> bool" where
  "has_shape n w arr = (length arr = n \<and> list_all (\<lambda>r. length r = w) arr)"

definition buffer_shaped :: "nat \<Rightarrow> nat \<Rightarrow> nat \<Rightarrow> ReplayBuffer \<Rightarrow> bool" where
  "buffer_shaped input_shape n_actions num_agents b =
     (has_shape (mem_size b) input_shape (state_memory b) \<and>
      has_shape (mem_size b) n_actions (action_memory b) \<and>
      length (reward_memory b) = mem_size b \<and>
      has_shape (mem_size b) (input_shape * (num_agents - 1)) (others_states b) \<and>
      has_shape (mem_size b) (n_actions * (num_agents - 1)) (others_actions b))"

fun transition_shaped :: "nat \<Rightarrow> nat \<Rightarrow> nat \<Rightarrow> transition \<Rightarrow> bool" where
  "transition_shaped input_shape n_actions num_agents (s, a, r, os, oa) =
     (length s = input_shape \<and> length a = n_actions \<and>
      length os = input_shape * (num_agents - 1) \<and> length oa = n_actions * (num_agents - 1))"


section \<open>networks.py: the actor and the critic\<close>

text \<open>
  \<open>nn.Linear(in_features, out_features)\<close>: \<open>weight\<close> has \<open>out_features\<close> rows of
  \<open>in_features\<close> entries, \<open>bias\<close> has \<open>out_features\<close> entries.  Applied to a row of
  another width than \<open>in_features\<close>, torch raises RuntimeError.
\<close>

record Linear =
  in_features :: nat
  out_features :: nat
  weight :: "real list list"
  bias :: "real list"

definition dot :: "real list \<Rightarrow> real list \<Rightarrow> real" where
  "dot w x = sum_list (map2 (*) w x)"

definition linear :: "Linear \<Rightarrow> real list \<Rightarrow> py_error + real list" where
  "linear layer x =
     (if length x = in_features layer
      then Inr (map2 (\<lambda>w b. dot w x + b) (weight layer) (bias layer))
      else Inl RuntimeError)"

definition relu :: "real \<Rightarrow> real" where
  "relu x = max 0 x"

definition sigmoid :: "real \<Rightarrow> real" where
  "sigmoid x = 1 / (1 + exp (- x))"

definition layer_shaped :: "nat \<Rightarrow> nat \<Rightarrow> Linear \<Rightarrow> bool" where
  "layer_shaped n_in n_out layer =
     (in_features layer = n_in \<and> out_features layer = n_out \<and>
      has_shape n_out n_in (weight layer) \<and> length (bias layer) = n_out)"

record ActorNetwork =
  fc1 :: Linear
  fc2 :: Linear
  mu :: Linear

record CriticNetwork =
  fc1 :: Linear
  fc2 :: Linear
  q :: Linear

text \<open>
  The shapes the constructors give the layers: \<open>ActorNetwork.__init__\<close> (lines 136 to
  138) and \<open>CriticNetwork.__init__\<close> (lines 78 to 83).
\<close>

definition ActorNetwork_shaped :: "nat \<Rightarrow> nat \<Rightarrow> nat \<Rightarrow> nat \<Rightarrow> ActorNetwork \<Rightarrow> bool" where
  "ActorNetwork_shaped input_dims fc1_dims fc2_dims n_actions net =
     (layer_shaped input_dims fc1_dims (ActorNetwork.fc1 net) \<and>
      layer_shaped fc1_dims fc2_dims (ActorNetwork.fc2 net) \<and>
      layer_shaped fc2_dims n_actions (mu net))"

definition CriticNetwork_shaped ::
  "nat \<Rightarrow> nat \<Rightarrow> nat \<Rightarrow> nat \<Rightarrow> nat \<Rightarrow> bool \<Rightarrow> nat \<Rightarrow> CriticNetwork \<Rightarrow> bool" where
  "CriticNetwork_shaped input_dims fc1_dims fc2_dims n_actions n_agents flag extra net =
     (let shape_of_input = (if flag then (n_agents + extra) * (input_dims + n_actions)
                            else n_agents * (input_dims + n_actions))
      in layer_shaped shape_of_input fc1_dims (CriticNetwork.fc1 net) \<and>
         layer_shaped fc1_dims fc2_dims (CriticNetwork.fc2 net) \<and>
         layer_shaped fc2_dims 1 (q net))"

text \<open>
  \<open>ActorNetwork._init_layer\<close>.  \<open>layer.weight.data.size()[0]\<close> is the number of rows
  of the weight matrix.  The two \<open>uniform_\<close> draws are inputs; \<open>uniform_draw\<close> says which
  are possible.  (\<open>np.sqrt(0)\<close> and the division by it are outside the model.)
\<close>

definition init_limit :: "Linear \<Rightarrow> real \<Rightarrow> real" where
  "init_limit layer scale = (let fan_in = length (weight layer) in scale / sqrt (real fan_in))"

definition in_limit :: "real \<Rightarrow> real \<Rightarrow> bool" where
  "in_limit limit x = (- limit \<le> x \<and> x \<le> limit)"

definition uniform_draw :: "Linear \<Rightarrow> real \<Rightarrow> real list list \<Rightarrow> real list \<Rightarrow> bool" where
  "uniform_draw layer scale w b =
     (has_shape (out_features layer) (in_features layer) w \<and> length b = out_features layer \<and>
      list_all (list_all (in_limit (init_limit layer scale))) w \<and>
      list_all (in_limit (init_limit layer scale)) b)"

definition init_layer :: "Linear \<Rightarrow> real list list \<Rightarrow> real list \<Rightarrow> Linear" where
  "init_layer layer w b = layer\<lparr>weight := w, bias := b\<rparr>"

text \<open>
  \<open>ActorNetwork.forward\<close> on one row and on a batch of rows, and
  \<open>CriticNetwork.forward\<close>.  \<open>T.cat(tensors, dim=1)\<close> joins the rows of the tensors
  side by side; it raises RuntimeError on an empty list and when the tensors do not have
  the same number of rows.
\<close>

definition actor_forward_row :: "ActorNetwork \<Rightarrow> real list \<Rightarrow> py_error + real list" where
  "actor_forward_row net state =
     bind_e (linear (ActorNetwork.fc1 net) state) (\<lambda>x.
     bind_e (linear (ActorNetwork.fc2 net) (map relu x)) (\<lambda>x.
     bind_e (linear (mu net) (map relu x)) (\<lambda>x.
       Inr (map sigmoid x))))"

definition actor_forward :: "ActorNetwork \<Rightarrow> real list list \<Rightarrow> py_error + real list list" where
  "actor_forward net state = map_e (actor_forward_row net) state"

definition cat1 :: "real list list list \<Rightarrow> py_error + real list list" where
  "cat1 tensors =
     (case tensors of
        [] \<Rightarrow> Inl RuntimeError
      | t # _ \<Rightarrow>
          if list_all (\<lambda>u. length u = length t) tensors
          then Inr (map (\<lambda>j. concat (map (\<lambda>u. u ! j) tensors)) [0..<length t])
          else Inl RuntimeError)"

definition critic_forward_row :: "CriticNetwork \<Rightarrow> real list \<Rightarrow> py_error + real list" where
  "critic_forward_row net concatenated_inputs =
     bind_e (linear (CriticNetwork.fc1 net) concatenated_inputs) (\<lambda>x.
     bind_e (linear (CriticNetwork.fc2 net) (map relu x)) (\<lambda>x.
       linear (q net) (map relu x)))"

definition critic_forward ::
  "CriticNetwork \<Rightarrow> real list list \<Rightarrow> real list list \<Rightarrow> real list list \<Rightarrow> real list list
     \<Rightarrow> py_error + real list list" where
  "critic_forward net state action others_s others_a =
     bind_e (cat1 [state, action, others_s, others_a]) (\<lambda>concatenated_inputs.
       map_e (critic_forward_row net) concatenated_inputs)"


section \<open>agent.py: the agent\<close>

record Agent =
  gamma :: real
  tau :: real
  batch_size :: nat
  total_episodes :: int
  noise_std :: real
  actor :: ActorNetwork
  critic :: CriticNetwork
  target_actor :: ActorNetwork
  target_critic :: CriticNetwork

text \<open>
  \<open>update_network_parameters\<close>.  \<open>parameters()\<close> lists the tensors of a network in the
  order its layers were registered: weight and bias of \<open>fc1\<close>, of \<open>fc2\<close>, of \<open>mu\<close> (or
  \<open>q\<close>).  The constructor builds a network and its target from the same sizes and nothing
  changes a shape afterwards, so \<open>zip\<close> pairs tensors of the same shape, and
  \<open>tau * param.data + (1 - tau) * target_param.data\<close> is entry by entry.
\<close>

definition blend :: "real \<Rightarrow> real \<Rightarrow> real \<Rightarrow> real" where
  "blend t param target_param = t * param + (1 - t) * target_param"

definition update_layer :: "real \<Rightarrow> Linear \<Rightarrow> Linear \<Rightarrow> Linear" where
  "update_layer t target_layer layer =
     target_layer\<lparr>weight := map2 (map2 (blend t)) (weight layer) (weight target_layer),
                  bias := map2 (blend t) (bias layer) (bias target_layer)\<rparr>"

definition update_network_parameters :: "Agent \<Rightarrow> real option \<Rightarrow> Agent" where
  "update_network_parameters a tau_arg =
     (let t = (case tau_arg of None \<Rightarrow> tau a | Some t \<Rightarrow> t);
          tc = target_critic a; c = critic a;
          tc' = tc\<lparr>CriticNetwork.fc1 := update_layer t (CriticNetwork.fc1 tc) (CriticNetwork.fc1 c),
                   CriticNetwork.fc2 := update_layer t (CriticNetwork.fc2 tc) (CriticNetwork.fc2 c),
                   q := update_layer t (q tc) (q c)\<rparr>;
          ta = target_actor a; ac = actor a;
          ta' = ta\<lparr>ActorNetwork.fc1 := update_layer t (ActorNetwork.fc1 ta) (ActorNetwork.fc1 ac),
                   ActorNetwork.fc2 := update_layer t (ActorNetwork.fc2 ta) (ActorNetwork.fc2 ac),
                   mu := update_layer t (mu ta) (mu ac)\<rparr>
      in a\<lparr>target_critic := tc', target_actor := ta'\<rparr>)"

text \<open>
  \<open>Agent.__init__\<close>: the four networks as their constructors drew them are inputs; the
  last statement is the one call \<open>update_network_parameters(tau=1)\<close>.
\<close>

definition Agent_init ::
  "real \<Rightarrow> real \<Rightarrow> nat \<Rightarrow> int \<Rightarrow> real \<Rightarrow> ActorNetwork \<Rightarrow> CriticNetwork \<Rightarrow> ActorNetwork
     \<Rightarrow> CriticNetwork \<Rightarrow> Agent" where
  "Agent_init tau0 gamma0 batch_size0 total_eps noise_std0 actor0 critic0 target_actor0 target_critic0 =
     update_network_parameters
       \<lparr>gamma = gamma0, tau = tau0, batch_size = batch_size0, total_episodes = total_eps,
        noise_std = noise_std0, actor = actor0, critic = critic0,
        target_actor = target_actor0, target_critic = target_critic0\<rparr>
       (Some 1)"

text \<open>
  The parameters of a network as \<open>parameters()\<close> lists them, each tensor flattened row
  by row, and the shapes of an agent's networks.
\<close>

definition layer_parameters :: "Linear \<Rightarrow> real list list" where
  "layer_parameters layer = [concat (weight layer), bias layer]"

definition actor_parameters :: "ActorNetwork \<Rightarrow> real list list" where
  "actor_parameters net =
     layer_parameters (ActorNetwork.fc1 net) @ layer_parameters (ActorNetwork.fc2 net) @
     layer_parameters (mu net)"

definition critic_parameters :: "CriticNetwork \<Rightarrow> real list list" where
  "critic_parameters net =
     layer_parameters (CriticNetwork.fc1 net) @ layer_parameters (CriticNetwork.fc2 net) @
     layer_parameters (q net)"

definition same_shape :: "Linear \<Rightarrow> Linear \<Rightarrow> bool" where
  "same_shape l1 l2 =
     (in_features l1 = in_features l2 \<and> out_features l1 = out_features l2 \<and>
      length (bias l1) = length (bias l2) \<and>
      list_all2 (\<lambda>r1 r2. length r1 = length r2) (weight l1) (weight l2))"

definition targets_shaped :: "Agent \<Rightarrow> bool" where
  "targets_shaped a =
     (same_shape (ActorNetwork.fc1 (actor a)) (ActorNetwork.fc1 (target_actor a)) \<and>
      same_shape (ActorNetwork.fc2 (actor a)) (ActorNetwork.fc2 (target_actor a)) \<and>
      same_shape (mu (actor a)) (mu (target_actor a)) \<and>
      same_shape (CriticNetwork.fc1 (critic a)) (CriticNetwork.fc1 (target_critic a)) \<and>
      same_shape (CriticNetwork.fc2 (critic a)) (CriticNetwork.fc2 (target_critic a)) \<and>
      same_shape (q (critic a)) (q (target_critic a)))"

text \<open>
  \<open>np.random.normal(loc, scale)\<close> raises ValueError for a negative scale and otherwise
  returns \<open>loc + scale * z\<close> for a draw \<open>z\<close> of the standard normal distribution (mean
  0, standard deviation 1): a Gaussian of mean \<open>loc\<close> and standard deviation \<open>scale\<close>.
  The standard draw \<open>z\<close> is the input of the model.
\<close>

definition np_random_normal :: "real \<Rightarrow> real \<Rightarrow> real \<Rightarrow> py_error + real" where
  "np_random_normal loc scale z = (if scale < 0 then Inl ValueError else Inr (loc + scale * z))"

text \<open>
  \<open>choose_action\<close>.  The observation is wrapped into a batch of one row.  The noise is
  the one number \<open>np.random.normal(0, noise_std)\<close>, drawn from the standard draw \<open>z\<close>
  and added to every component; \<open>episode / total_episodes\<close> raises ZeroDivisionError
  for \<open>total_episodes = 0\<close>.  \<open>clamp(0, 1)\<close> is \<open>min(max(x, 0), 1)\<close>.
\<close>

definition clamp :: "real \<Rightarrow> real \<Rightarrow> real \<Rightarrow> real" where
  "clamp lo hi x = min (max x lo) hi"

definition choose_action ::
  "Agent \<Rightarrow> real list \<Rightarrow> int \<Rightarrow> bool \<Rightarrow> real \<Rightarrow> py_error + real list list" where
  "choose_action a observation episode evaluation z =
     bind_e (actor_forward (actor a) [observation]) (\<lambda>action.
       if \<not> evaluation then
         bind_e (np_random_normal 0 (noise_std a) z) (\<lambda>noise.
           if total_episodes a = 0 then Inl ZeroDivisionError
           else
             let decay = 1 - (real_of_int episode / real_of_int (total_episodes a));
                 action = map (map (\<lambda>x. x + noise * decay)) action
             in Inr (map (map (clamp 0 1)) action))
       else Inr action)"


section \<open>maddpg.py: the coordinator\<close>

record MADDPG =
  agents :: "Agent list"
  num_agents :: nat
  batch_size :: nat
  gamma :: real
  max_size :: nat
  memory :: ReplayBuffer
  short_memory :: ReplayBuffer

text \<open>
  \<open>MADDPG.__init__\<close>: the agents as their constructors built them are an input.
\<close>

definition MADDPG_init :: "Agent list \<Rightarrow> real \<Rightarrow> nat \<Rightarrow> nat \<Rightarrow> nat \<Rightarrow> nat \<Rightarrow> py_error + MADDPG" where
  "MADDPG_init ags gamma0 BS input_dims n_actions n_agents =
     bind_e (ReplayBuffer_init 1000000 input_dims n_actions n_agents) (\<lambda>mem.
     bind_e (ReplayBuffer_init 1 input_dims n_actions n_agents) (\<lambda>short.
       Inr \<lparr>agents = ags, num_agents = n_agents, batch_size = BS, gamma = gamma0,
            max_size = 1000000, memory = mem, short_memory = short\<rparr>))"

definition remember ::
  "MADDPG \<Rightarrow> real list \<Rightarrow> real list \<Rightarrow> real \<Rightarrow> real list \<Rightarrow> real list \<Rightarrow> py_error + MADDPG" where
  "remember m state action reward others_s others_a =
     bind_e (store_transition (memory m) state action reward others_s others_a) (\<lambda>mem.
     bind_e (store_transition (short_memory m) state action reward others_s others_a) (\<lambda>short.
       Inr (m\<lparr>memory := mem, short_memory := short\<rparr>)))"

fun remember_all :: "MADDPG \<Rightarrow> transition list \<Rightarrow> py_error + MADDPG" where
  "remember_all m [] = Inr m"
| "remember_all m ((s, a, r, os, oa) # ts) =
     (case remember m s a r os oa of Inl e \<Rightarrow> Inl e | Inr m' \<Rightarrow> remember_all m' ts)"

text \<open>
  Pieces of \<open>learn\<close>.  \<open>xs[i]\<close> on a Python list raises IndexError out of range;
  \<open>arr[:, i]\<close> raises IndexError when the rows have no column \<open>i\<close>, and
  \<open>reshape(-1, 1)\<close> makes each entry a row of its own.  With \<open>flag\<close> set, the first
  column is repeated \<open>num_tiles\<close> times at the end of every row: by \<open>np.tile\<close> and
  \<open>np.concatenate\<close> for the sampled arrays, by \<open>T.cat\<close> for the target actions, where
  \<open>T.cat\<close> of no tensor (\<open>num_tiles = 0\<close>) raises RuntimeError.
\<close>

definition nth_e :: "'a list \<Rightarrow> nat \<Rightarrow> py_error + 'a" where
  "nth_e xs i = (if i < length xs then Inr (xs ! i) else Inl IndexError)"

definition column :: "real list list \<Rightarrow> nat \<Rightarrow> py_error + real list list" where
  "column arr i = map_e (\<lambda>row. if i < length row then Inr [row ! i] else Inl IndexError) arr"

definition np_tile_first :: "nat \<Rightarrow> real list list \<Rightarrow> py_error + real list list" where
  "np_tile_first num_tiles arr =
     map_e (\<lambda>row. if row = [] then Inl IndexError else Inr (row @ replicate num_tiles (row ! 0))) arr"

definition torch_tile_first :: "nat \<Rightarrow> real list list \<Rightarrow> py_error + real list list" where
  "torch_tile_first num_tiles arr =
     bind_e (column arr 0) (\<lambda>first_column.
     bind_e (cat1 (replicate num_tiles first_column)) (\<lambda>tiled.
       cat1 [arr, tiled]))"

text \<open>
  Lines 74 to 83 (and 171 to 180): the target actions of the other agents.
  \<open>indexes.remove(idx)\<close> raises ValueError when \<open>idx\<close> is not an agent index.
\<close>

definition others_target_actions_of ::
  "Agent list \<Rightarrow> nat \<Rightarrow> nat \<Rightarrow> real list list \<Rightarrow> py_error + real list list" where
  "others_target_actions_of ags n idx others_s =
     (let num_columns = n - 1 in
      if idx \<notin> set [0..<n] then Inl ValueError
      else
        let indexes = remove1 idx [0..<n] in
        bind_e (map_e (\<lambda>i.
                  bind_e (column others_s i) (\<lambda>other_state_column.
                  bind_e (nth_e ags (indexes ! i)) (\<lambda>other_agent.
                    actor_forward (target_actor other_agent) other_state_column)))
                [0..<num_columns]) (\<lambda>target_actions_list.
          cat1 target_actions_list))"

text \<open>
  Lines 96 to 100: the regression target of the critic.  \<open>T.tensor\<close> of the list raises
  ValueError when an entry is not a single number.
\<close>

definition critic_targets :: "real \<Rightarrow> nat \<Rightarrow> real list \<Rightarrow> real list list \<Rightarrow> py_error + real list" where
  "critic_targets gamma0 batch_size0 reward critic_value_tgt =
     map_e (\<lambda>j.
       if j < length reward \<and> j < length critic_value_tgt
       then (case critic_value_tgt ! j of
               [v] \<Rightarrow> Inr (reward ! j + gamma0 * v)
             | _ \<Rightarrow> Inl ValueError)
       else Inl IndexError)
     [0..<batch_size0]"

text \<open>
  The gradient steps (\<open>loss.backward()\<close> and \<open>optimizer.step()\<close>, Adam) are not
  modelled: they are parameters, any functions from what a step reads to the updated
  live network.  \<open>critic_step\<close> reads the critic, its four inputs and the target;
  \<open>actor_step\<close> reads the actor, the critic, the states, the others' states and the
  others' actions.
\<close>

record optimizers =
  critic_step ::
    "CriticNetwork \<Rightarrow> real list list \<Rightarrow> real list list \<Rightarrow> real list list \<Rightarrow> real list list
       \<Rightarrow> real list \<Rightarrow> CriticNetwork"
  actor_step ::
    "ActorNetwork \<Rightarrow> CriticNetwork \<Rightarrow> real list list \<Rightarrow> real list list \<Rightarrow> real list list
       \<Rightarrow> ActorNetwork"

text \<open>
  Lines 96 to 100 with what they read: the target that \<open>learn\<close> regresses the critic of
  agent \<open>idx\<close> on, from a sampled batch (lines 47 to 100).
\<close>

definition learn_target ::
  "MADDPG \<Rightarrow> nat \<Rightarrow> bool \<Rightarrow> nat \<Rightarrow> batch \<Rightarrow> py_error + real list" where
  "learn_target m idx flag num_tiles sampled =
     (case sampled of (state, action, reward, others_s, others_a) \<Rightarrow>
      bind_e (nth_e (agents m) idx) (\<lambda>agent.
      bind_e (if flag then np_tile_first num_tiles others_s else Inr others_s) (\<lambda>others_s.
      bind_e (if flag then np_tile_first num_tiles others_a else Inr others_a) (\<lambda>others_a.
      bind_e (actor_forward (target_actor agent) state) (\<lambda>target_actions.
      bind_e (others_target_actions_of (agents m) (num_agents m) idx others_s) (\<lambda>others_target_actions.
      bind_e (if flag then torch_tile_first num_tiles others_target_actions
              else Inr others_target_actions) (\<lambda>others_target_actions.
      bind_e (critic_forward (target_critic agent) state target_actions others_s others_target_actions)
        (\<lambda>critic_value_tgt.
      bind_e (critic_forward (critic agent) state action others_s others_a) (\<lambda>critic_value.
        critic_targets (gamma m) (batch_size m) reward critic_value_tgt)))))))))"

text \<open>
  One pass of \<open>learn\<close> over a buffer: lines 44 to 130 for \<open>memory\<close>, lines 139 to 227,
  the same statements, for \<open>short_memory\<close>.  \<open>learn_on_batch\<close> is what the pass does
  with the agent and the batch it has sampled (lines 48 to 130, and 143 to 227);
  \<open>learn_pass\<close> looks the agent up, samples the batch from the buffer with
  \<open>sample_buffer\<close> (lines 44 to 47, and 139 to 142) and goes on with \<open>learn_on_batch\<close>.
  \<open>batch\<close> is the draw of \<open>sample_buffer\<close>.
\<close>

definition learn_on_batch ::
  "optimizers \<Rightarrow> MADDPG \<Rightarrow> nat \<Rightarrow> bool \<Rightarrow> nat \<Rightarrow> Agent \<Rightarrow> batch \<Rightarrow> py_error + MADDPG" where
  "learn_on_batch opt m idx flag num_tiles agent sampled =
     (case sampled of (state, action, reward, others_s0, others_a0) \<Rightarrow>
     bind_e (learn_target m idx flag num_tiles sampled) (\<lambda>target.
     bind_e (if flag then np_tile_first num_tiles others_s0 else Inr others_s0) (\<lambda>others_s.
     bind_e (if flag then np_tile_first num_tiles others_a0 else Inr others_a0) (\<lambda>others_a.
     let critic' = critic_step opt (critic agent) state action others_s others_a target in
     bind_e (actor_forward (actor agent) state) (\<lambda>mu_live.
     bind_e (others_target_actions_of (agents m) (num_agents m) idx others_s) (\<lambda>others_mus.
     bind_e (if flag then torch_tile_first num_tiles others_mus else Inr others_mus) (\<lambda>others_mus.
     bind_e (critic_forward critic' state mu_live others_s others_mus) (\<lambda>actor_loss.
     let actor' = actor_step opt (actor agent) critic' state others_s others_mus;
         agent' = update_network_parameters (agent\<lparr>critic := critic', actor := actor'\<rparr>) None
     in Inr (m\<lparr>agents := (agents m)[idx := agent']\<rparr>)))))))))"

definition learn_pass ::
  "optimizers \<Rightarrow> MADDPG \<Rightarrow> nat \<Rightarrow> bool \<Rightarrow> nat \<Rightarrow> ReplayBuffer \<Rightarrow> nat list \<Rightarrow> py_error + MADDPG" where
  "learn_pass opt m idx flag num_tiles buffer batch =
     bind_e (nth_e (agents m) idx) (\<lambda>agent.
     bind_e (sample_buffer buffer (batch_size m) batch) (\<lambda>sampled.
       learn_on_batch opt m idx flag num_tiles agent sampled))"

text \<open>
  \<open>learn\<close>.  It returns nothing; the model returns the coordinator as the call leaves
  it, and the passes that ran: none (the return of line 42), the long one (the return of
  line 137), or both.
\<close>

datatype pass = LongMemory | ShortMemory

definition learn ::
  "optimizers \<Rightarrow> MADDPG \<Rightarrow> nat \<Rightarrow> bool \<Rightarrow> nat \<Rightarrow> nat list \<Rightarrow> nat list
     \<Rightarrow> py_error + MADDPG \<times> pass list" where
  "learn opt m idx flag num_tiles batch_long batch_short =
     (if mem_cntr (memory m) < MADDPG.batch_size m then Inr (m, [])
      else
        bind_e (learn_pass opt m idx flag num_tiles (memory m) batch_long) (\<lambda>m1.
          if mem_cntr (short_memory m1) < MADDPG.batch_size m1 then Inr (m1, [LongMemory])
          else
            bind_e (learn_pass opt m1 idx flag num_tiles (short_memory m1) batch_short) (\<lambda>m2.
              Inr (m2, [LongMemory, ShortMemory]))))"


section \<open>Concrete inputs\<close>

text \<open>A buffer of capacity 1 that has stored five transitions of two agents.\<close>

definition buf1 :: ReplayBuffer where
  "buf1 = \<lparr>mem_size = 1, mem_cntr = 5, state_memory = [[0]], action_memory = [[0]],
     reward_memory = [0], others_states = [[0]], others_actions = [[0]]\<rparr>"

text \<open>Two transitions of a game of two agents with one observation and one action each.\<close>

definition tr1 :: transition where
  "tr1 = ([1/2], [3/10], 1, [1/2], [3/10])"

definition tr2 :: transition where
  "tr2 = ([7/10], [1/5], 2, [2/5], [1/10])"


text \<open>
  Agents of a game with one observation and one action per agent: layers with one
  output, the actor's output being \<open>sigmoid b\<close> for the bias \<open>b\<close> of its last layer, and
  gradient steps that leave the networks as they are (learning rate 0).
\<close>

definition lin :: "nat \<Rightarrow> real \<Rightarrow> real \<Rightarrow> Linear" where
  "lin n_in w b = \<lparr>in_features = n_in, out_features = 1, weight = [replicate n_in w], bias = [b]\<rparr>"

definition actor_net :: "real \<Rightarrow> ActorNetwork" where
  "actor_net b = \<lparr>ActorNetwork.fc1 = lin 1 1 0, ActorNetwork.fc2 = lin 1 1 0, mu = lin 1 0 b\<rparr>"

definition critic_net :: "nat \<Rightarrow> real \<Rightarrow> CriticNetwork" where
  "critic_net n_in b = \<lparr>CriticNetwork.fc1 = lin n_in 1 0, CriticNetwork.fc2 = lin 1 1 0, q = lin 1 1 b\<rparr>"

definition agent_of :: "nat \<Rightarrow> real \<Rightarrow> Agent" where
  "agent_of n_in b = Agent_init (1/1000) (99/100) 2 100000 (1/5)
     (actor_net b) (critic_net n_in b) (actor_net 5) (critic_net n_in 7)"

definition opt0 :: optimizers where
  "opt0 = \<lparr>critic_step = (\<lambda>c state action os oa target. c),
           actor_step = (\<lambda>a c state os oms. a)\<rparr>"


text \<open>An agent before the constructor's call of \<open>update_network_parameters\<close>.\<close>

definition agent_raw :: Agent where
  "agent_raw = \<lparr>Agent.gamma = 99/100, tau = 1/1000, Agent.batch_size = 2, total_episodes = 100000,
     noise_std = 1/5, actor = actor_net 1, critic = critic_net 4 1,
     target_actor = actor_net 5, target_critic = critic_net 4 7\<rparr>"

text \<open>
  The decay of the exploration noise in the words of the spec,
  \<open>max(0, 1 - episode_index/total_episodes)\<close>, to compare the code with.
\<close>

definition decay_spec :: "int \<Rightarrow> int \<Rightarrow> real" where
  "decay_spec episode_index total_eps = max 0 (1 - real_of_int episode_index / real_of_int total_eps)"




section \<open>The replay buffer: storing\<close>

lemma has_shape_nth: "has_shape n w arr \<Longrightarrow> i < n \<Longrightarrow> length (arr ! i) = w"
  by (simp add: has_shape_def list_all_length)

lemma has_shape_update: "has_shape n w arr \<Longrightarrow> length r = w \<Longrightarrow> has_shape n w (arr[i := r])"
  using set_update_subset_insert[of arr i r] by (auto simp: has_shape_def list_all_iff)

lemma set_row_fits:
  "has_shape n w arr \<Longrightarrow> i < n \<Longrightarrow> length v = w \<Longrightarrow> set_row arr i v = Inr (arr[i := v])"
  by (simp add: set_row_def broadcast_row_def has_shape_def list_all_length)

lemma singleton_update: "length xs = Suc 0 \<Longrightarrow> xs[0 := v] = [v]"
  by (cases xs) auto

lemma store_transition_fits:
  assumes "0 < mem_size b" and "buffer_shaped d k n b"
    and "transition_shaped d k n (s, a, r, os, oa)"
  shows "store_transition b s a r os oa =
      Inr (b\<lparr>state_memory := (state_memory b)[mem_cntr b mod mem_size b := s],
             action_memory := (action_memory b)[mem_cntr b mod mem_size b := a],
             reward_memory := (reward_memory b)[mem_cntr b mod mem_size b := r],
             mem_cntr := mem_cntr b + 1,
             others_states := (others_states b)[mem_cntr b mod mem_size b := os],
             others_actions := (others_actions b)[mem_cntr b mod mem_size b := oa]\<rparr>)"
proof -
  have i: "mem_cntr b mod mem_size b < mem_size b" using assms(1) by simp
  from assms(2) have sh:
    "has_shape (mem_size b) d (state_memory b)" "has_shape (mem_size b) k (action_memory b)"
    "length (reward_memory b) = mem_size b"
    "has_shape (mem_size b) (d * (n - 1)) (others_states b)"
    "has_shape (mem_size b) (k * (n - 1)) (others_actions b)"
    by (simp_all add: buffer_shaped_def)
  from assms(3) have t: "length s = d" "length a = k" "length os = d * (n - 1)"
    "length oa = k * (n - 1)" by simp_all
  show ?thesis
    using assms(1) i sh t
    by (simp add: store_transition_def Let_def bind_e_def set_row_fits set_item_def)
qed

lemma store_transition_shaped:
  assumes "0 < mem_size b" and "buffer_shaped d k n b"
    and "transition_shaped d k n (s, a, r, os, oa)"
    and "store_transition b s a r os oa = Inr b'"
  shows "buffer_shaped d k n b' \<and> mem_size b' = mem_size b \<and> mem_cntr b' = mem_cntr b + 1"
proof -
  from assms(2) have sh:
    "has_shape (mem_size b) d (state_memory b)" "has_shape (mem_size b) k (action_memory b)"
    "length (reward_memory b) = mem_size b"
    "has_shape (mem_size b) (d * (n - 1)) (others_states b)"
    "has_shape (mem_size b) (k * (n - 1)) (others_actions b)"
    by (simp_all add: buffer_shaped_def)
  from assms(3) have t: "length s = d" "length a = k" "length os = d * (n - 1)"
    "length oa = k * (n - 1)" by simp_all
  from assms(4) store_transition_fits[OF assms(1-3)] have "b' =
      b\<lparr>state_memory := (state_memory b)[mem_cntr b mod mem_size b := s],
        action_memory := (action_memory b)[mem_cntr b mod mem_size b := a],
        reward_memory := (reward_memory b)[mem_cntr b mod mem_size b := r],
        mem_cntr := mem_cntr b + 1,
        others_states := (others_states b)[mem_cntr b mod mem_size b := os],
        others_actions := (others_actions b)[mem_cntr b mod mem_size b := oa]\<rparr>"
    by simp
  then show ?thesis using sh t by (simp add: buffer_shaped_def has_shape_update)
qed

text \<open>
  C8 (as amended).  For every buffer of capacity at least 1 whose arrays have the shapes
  the constructor gave them, and every transition that fits these shapes,
  \<open>store_transition\<close> does not raise, writes the transition at index
  \<open>mem_cntr mod mem_size\<close> of each of the five arrays, adds exactly one to the counter
  (no operation of the buffer ever lowers it) and keeps capacity and shapes; so a buffer
  of capacity 1 holds exactly the transition stored last.
\<close>

theorem store_transition_writes:
  assumes "0 < mem_size b" and "buffer_shaped d k n b"
    and "transition_shaped d k n (s, a, r, os, oa)"
  shows "\<exists>b'. store_transition b s a r os oa = Inr b' \<and>
      mem_cntr b' = mem_cntr b + 1 \<and> mem_size b' = mem_size b \<and>
      state_memory b' = (state_memory b)[mem_cntr b mod mem_size b := s] \<and>
      action_memory b' = (action_memory b)[mem_cntr b mod mem_size b := a] \<and>
      reward_memory b' = (reward_memory b)[mem_cntr b mod mem_size b := r] \<and>
      others_states b' = (others_states b)[mem_cntr b mod mem_size b := os] \<and>
      others_actions b' = (others_actions b)[mem_cntr b mod mem_size b := oa] \<and>
      buffer_shaped d k n b' \<and>
      (mem_size b = 1 \<longrightarrow>
         state_memory b' = [s] \<and> action_memory b' = [a] \<and> reward_memory b' = [r] \<and>
         others_states b' = [os] \<and> others_actions b' = [oa])"
proof -
  let ?i = "mem_cntr b mod mem_size b"
  from assms(2) have sh:
    "has_shape (mem_size b) d (state_memory b)" "has_shape (mem_size b) k (action_memory b)"
    "length (reward_memory b) = mem_size b"
    "has_shape (mem_size b) (d * (n - 1)) (others_states b)"
    "has_shape (mem_size b) (k * (n - 1)) (others_actions b)"
    by (simp_all add: buffer_shaped_def)
  note st = store_transition_fits[OF assms]
  have shaped: "buffer_shaped d k n (b\<lparr>state_memory := (state_memory b)[?i := s],
             action_memory := (action_memory b)[?i := a],
             reward_memory := (reward_memory b)[?i := r], mem_cntr := mem_cntr b + 1,
             others_states := (others_states b)[?i := os],
             others_actions := (others_actions b)[?i := oa]\<rparr>)"
    using store_transition_shaped[OF assms st] by simp
  have one: "mem_size b = 1 \<Longrightarrow> (state_memory b)[?i := s] = [s] \<and> (action_memory b)[?i := a] = [a] \<and>
      (reward_memory b)[?i := r] = [r] \<and> (others_states b)[?i := os] = [os] \<and>
      (others_actions b)[?i := oa] = [oa]"
    using sh by (simp add: has_shape_def singleton_update)
  show ?thesis using st shaped one by simp
qed

theorem store_transition_writes_witness:
  "0 < mem_size buf1 \<and> buffer_shaped 1 1 2 buf1 \<and>
   transition_shaped 1 1 2 ([1/2], [3/10], 1, [1/2], [3/10]) \<and> mem_size buf1 = 1 \<and>
   (\<exists>b'. store_transition buf1 [1/2] [3/10] 1 [1/2] [3/10] = Inr b' \<and> mem_cntr b' = 6 \<and>
      state_memory b' = [[1/2]] \<and> action_memory b' = [[3/10]] \<and> reward_memory b' = [1] \<and>
      others_states b' = [[1/2]] \<and> others_actions b' = [[3/10]])"
proof -
  have h: "0 < mem_size buf1" "buffer_shaped 1 1 2 buf1"
    "transition_shaped 1 1 2 ([1/2], [3/10], 1, [1/2], [3/10])"
    by (simp_all add: buf1_def buffer_shaped_def has_shape_def)
  from store_transition_writes[OF h] h show ?thesis by (auto simp: buf1_def)
qed

text \<open>
  C8 as stated fails for a buffer of capacity 0, which the constructor builds without
  complaint: \<open>mem_cntr % mem_size\<close> raises ZeroDivisionError.
\<close>

theorem store_transition_capacity_zero:
  "ReplayBuffer_init 0 1 1 2 =
     Inr \<lparr>mem_size = 0, mem_cntr = 0, state_memory = [], action_memory = [],
          reward_memory = [], others_states = [], others_actions = []\<rparr> \<and>
   store_transition \<lparr>mem_size = 0, mem_cntr = 0, state_memory = [], action_memory = [],
          reward_memory = [], others_states = [], others_actions = []\<rparr>
       [1/2] [3/10] 1 [1/2] [3/10] = Inl ZeroDivisionError"
  by (simp add: ReplayBuffer_init_def store_transition_def)


section \<open>The replay buffer: sequences of stores\<close>

lemma bind_e_Inr: "bind_e m f = Inr y \<Longrightarrow> \<exists>x. m = Inr x \<and> f x = Inr y"
  by (cases m) (simp_all add: bind_e_def)

lemma map_e_Inr: "(\<And>x. x \<in> set xs \<Longrightarrow> f x = Inr (g x)) \<Longrightarrow> map_e f xs = Inr (map g xs)"
  by (induction xs) auto

lemma ReplayBuffer_init_shaped:
  assumes "ReplayBuffer_init c d k n = Inr b"
  shows "buffer_shaped d k n b \<and> mem_size b = c \<and> mem_cntr b = 0"
  using assms
  by (auto simp: ReplayBuffer_init_def buffer_shaped_def has_shape_def list_all_iff split: if_splits)

lemma store_transition_counter:
  assumes "store_transition b s a r os oa = Inr b'"
  shows "mem_cntr b' = mem_cntr b + 1 \<and> mem_size b' = mem_size b"
  using assms
  by (auto simp: store_transition_def Let_def dest!: bind_e_Inr split: if_splits)

lemma store_transition_capacity_one:
  assumes "mem_size b = 1" and "buffer_shaped d k n b"
    and "transition_shaped d k n (s, a, r, os, oa)"
    and "store_transition b s a r os oa = Inr b'"
  shows "state_memory b' = [s] \<and> action_memory b' = [a] \<and> reward_memory b' = [r] \<and>
     others_states b' = [os] \<and> others_actions b' = [oa]"
proof -
  have pos: "0 < mem_size b" using assms(1) by simp
  from assms(2) have sh:
    "length (state_memory b) = mem_size b" "length (action_memory b) = mem_size b"
    "length (reward_memory b) = mem_size b" "length (others_states b) = mem_size b"
    "length (others_actions b) = mem_size b"
    by (simp_all add: buffer_shaped_def has_shape_def)
  from assms(4) store_transition_fits[OF pos assms(2,3)] sh assms(1)
  show ?thesis by (auto simp: singleton_update)
qed

lemma store_all_shaped:
  assumes "0 < mem_size b" and "buffer_shaped d k n b" and "list_all (transition_shaped d k n) ts"
  shows "\<exists>b'. store_all b ts = Inr b' \<and> buffer_shaped d k n b' \<and> mem_size b' = mem_size b \<and>
     mem_cntr b' = mem_cntr b + length ts"
  using assms
proof (induction ts arbitrary: b)
  case Nil
  then show ?case by simp
next
  case (Cons t ts)
  obtain s a r os oa where t: "t = (s, a, r, os, oa)" by (cases t) auto
  from Cons.prems t have ts: "transition_shaped d k n (s, a, r, os, oa)"
    and rest: "list_all (transition_shaped d k n) ts" by simp_all
  from store_transition_fits[OF Cons.prems(1,2) ts] obtain b1 where
    b1: "store_transition b s a r os oa = Inr b1" by blast
  from store_transition_shaped[OF Cons.prems(1,2) ts b1]
  have inv: "buffer_shaped d k n b1" "mem_size b1 = mem_size b" "mem_cntr b1 = mem_cntr b + 1"
    by simp_all
  from Cons.IH[of b1] inv Cons.prems(1) rest obtain b' where
    "store_all b1 ts = Inr b'" "buffer_shaped d k n b'" "mem_size b' = mem_size b1"
    "mem_cntr b' = mem_cntr b1 + length ts" by auto
  then show ?case using t b1 inv by simp
qed

lemma store_all_capacity_one:
  assumes "mem_size b = 1" and "buffer_shaped d k n b" and "list_all (transition_shaped d k n) ts"
    and "ts \<noteq> []" and "store_all b ts = Inr b'" and "last ts = (s, a, r, os, oa)"
  shows "state_memory b' = [s] \<and> action_memory b' = [a] \<and> reward_memory b' = [r] \<and>
     others_states b' = [os] \<and> others_actions b' = [oa]"
  using assms
proof (induction ts arbitrary: b)
  case Nil
  then show ?case by simp
next
  case (Cons t ts)
  obtain s1 a1 r1 os1 oa1 where t: "t = (s1, a1, r1, os1, oa1)" by (cases t) auto
  from Cons.prems t have ts: "transition_shaped d k n (s1, a1, r1, os1, oa1)"
    and rest: "list_all (transition_shaped d k n) ts" by simp_all
  have pos: "0 < mem_size b" using Cons.prems(1) by simp
  from Cons.prems(5) t obtain b1 where
    b1: "store_transition b s1 a1 r1 os1 oa1 = Inr b1" and b': "store_all b1 ts = Inr b'"
    by (auto split: sum.splits)
  from store_transition_shaped[OF pos Cons.prems(2) ts b1] Cons.prems(1)
  have inv: "mem_size b1 = 1" "buffer_shaped d k n b1" by simp_all
  show ?case
  proof (cases "ts = []")
    case True
    with Cons.prems(6) t b' store_transition_capacity_one[OF Cons.prems(1,2) ts b1]
    show ?thesis by simp
  next
    case False
    with Cons.prems(6) have "last ts = (s, a, r, os, oa)" by simp
    from Cons.IH[OF inv rest False b' this] show ?thesis .
  qed
qed

lemma gather_single:
  assumes "list_all (\<lambda>i. i < Suc 0) batch"
  shows "gather [x] batch = Inr (replicate (length batch) x)"
proof -
  have "map_e (\<lambda>i. if i < length [x] then Inr ([x] ! i) else Inl IndexError) batch
      = Inr (map (\<lambda>i. x) batch)"
    using assms by (intro map_e_Inr) (auto simp: list_all_iff)
  then show ?thesis by (simp add: gather_def map_replicate_const)
qed

lemma random_choice_one: "random_choice (Suc 0) n batch \<Longrightarrow> batch = replicate n 0"
  by (auto simp: random_choice_def list_all_iff intro!: replicate_eqI)

text \<open>
  C2.  The claim fails on the code once the counter has passed the capacity.  A buffer of
  capacity 1 that has stored \<open>tr1\<close> and then \<open>tr2\<close> holds \<open>tr2\<close>, with the counter at 2,
  and \<open>sample_last_buffer(1)\<close> slices every array at \<open>[1:2]\<close>: it returns five empty
  arrays, not the transition \<open>tr2\<close>.
\<close>

theorem sample_last_buffer_wrapped:
  "bind_e (ReplayBuffer_init 1 1 1 2) (\<lambda>b. bind_e (store_all b [tr1, tr2]) (\<lambda>b'.
     Inr (mem_cntr b', state_memory b', action_memory b', reward_memory b',
          sample_last_buffer b' 1)))
   = Inr (2, [[7/10]], [[1/5]], [2], ([], [], [], [], []))"
  by (simp add: ReplayBuffer_init_def bind_e_def tr1_def tr2_def store_transition_def
      set_row_def set_item_def broadcast_row_def sample_last_buffer_def slice_def)


section \<open>The coordinator: counters and gates\<close>

lemma remember_counters:
  assumes "remember m s a r os oa = Inr m'"
  shows "mem_cntr (memory m') = mem_cntr (memory m) + 1 \<and>
     mem_cntr (short_memory m') = mem_cntr (short_memory m) + 1 \<and>
     mem_size (memory m') = mem_size (memory m) \<and>
     mem_size (short_memory m') = mem_size (short_memory m) \<and>
     MADDPG.batch_size m' = MADDPG.batch_size m"
  using assms
  by (auto simp: remember_def dest!: bind_e_Inr store_transition_counter)

lemma remember_all_counters:
  assumes "remember_all m ts = Inr m'"
  shows "mem_cntr (memory m') = mem_cntr (memory m) + length ts \<and>
     mem_cntr (short_memory m') = mem_cntr (short_memory m) + length ts \<and>
     mem_size (memory m') = mem_size (memory m) \<and>
     mem_size (short_memory m') = mem_size (short_memory m) \<and>
     MADDPG.batch_size m' = MADDPG.batch_size m"
  using assms
proof (induction ts arbitrary: m)
  case Nil
  then show ?case by simp
next
  case (Cons t ts)
  obtain s a r os oa where t: "t = (s, a, r, os, oa)" by (cases t) auto
  from Cons.prems t obtain m1 where m1: "remember m s a r os oa = Inr m1"
    "remember_all m1 ts = Inr m'" by (auto split: sum.splits)
  from remember_counters[OF m1(1)] Cons.IH[OF m1(2)] show ?case by simp
qed

lemma MADDPG_init_fresh:
  assumes "MADDPG_init ags g bs d k n = Inr m"
  shows "mem_cntr (memory m) = 0 \<and> mem_cntr (short_memory m) = 0 \<and>
     mem_size (memory m) = 1000000 \<and> mem_size (short_memory m) = 1 \<and>
     MADDPG.batch_size m = bs \<and> agents m = ags \<and> num_agents m = n \<and> MADDPG.gamma m = g"
  using assms
  by (auto simp: MADDPG_init_def ReplayBuffer_init_def dest!: bind_e_Inr split: if_splits)

lemma learn_pass_keeps:
  assumes "learn_pass opt m idx flag nt buf batch = Inr m'"
  shows "memory m' = memory m \<and> short_memory m' = short_memory m \<and>
     MADDPG.batch_size m' = MADDPG.batch_size m \<and> num_agents m' = num_agents m \<and>
     MADDPG.gamma m' = MADDPG.gamma m \<and> length (agents m') = length (agents m)"
proof -
  from assms obtain ags where "m' = m\<lparr>agents := ags\<rparr>" "length ags = length (agents m)"
    unfolding learn_pass_def learn_on_batch_def Let_def
    by (auto dest!: bind_e_Inr split: prod.splits)
  then show ?thesis by simp
qed


text \<open>The definitions that evaluate a run on concrete inputs.\<close>

lemmas eval_defs = MADDPG_init_def ReplayBuffer_init_def bind_e_def tr1_def tr2_def store_transition_def
      set_row_def set_item_def broadcast_row_def remember_def learn_def learn_pass_def learn_on_batch_def learn_target_def
      nth_e_def sample_buffer_def gather_def agent_of_def Agent_init_def update_network_parameters_def
      update_layer_def blend_def actor_net_def critic_net_def lin_def actor_forward_def actor_forward_row_def
      linear_def dot_def relu_def sigmoid_def others_target_actions_of_def column_def cat1_def
      critic_forward_def critic_forward_row_def critic_targets_def opt0_def Let_def

lemma upt_2: "[0..<2] = [0, 1]" by (simp add: upt_rec)

lemma remember_all_stores:
  assumes "remember_all m ts = Inr m'"
  shows "store_all (memory m) ts = Inr (memory m') \<and>
     store_all (short_memory m) ts = Inr (short_memory m')"
  using assms
proof (induction ts arbitrary: m)
  case Nil
  then show ?case by simp
next
  case (Cons t ts)
  obtain s a r os oa where t: "t = (s, a, r, os, oa)" by (cases t) auto
  from Cons.prems t obtain m1 where m1: "remember m s a r os oa = Inr m1"
    "remember_all m1 ts = Inr m'" by (auto split: sum.splits)
  from m1(1) have "store_transition (memory m) s a r os oa = Inr (memory m1)"
    "store_transition (short_memory m) s a r os oa = Inr (short_memory m1)"
    by (auto simp: remember_def dest!: bind_e_Inr)
  with Cons.IH[OF m1(2)] t show ?case by simp
qed

lemma learn_short_run:
  assumes "learn opt m idx flag nt bl bsh = Inr (m', passes)"
  shows "ShortMemory \<in> set passes \<longleftrightarrow>
     MADDPG.batch_size m \<le> mem_cntr (memory m) \<and> MADDPG.batch_size m \<le> mem_cntr (short_memory m)"
proof (cases "mem_cntr (memory m) < MADDPG.batch_size m")
  case True
  with assms show ?thesis by (auto simp: learn_def)
next
  case False
  with assms obtain m1 where m1: "learn_pass opt m idx flag nt (memory m) bl = Inr m1"
    and rest: "(if mem_cntr (short_memory m1) < MADDPG.batch_size m1 then Inr (m1, [LongMemory])
          else bind_e (learn_pass opt m1 idx flag nt (short_memory m1) bsh) (\<lambda>m2.
              Inr (m2, [LongMemory, ShortMemory]))) = Inr (m', passes)"
    by (auto simp: learn_def dest!: bind_e_Inr)
  from learn_pass_keeps[OF m1] have k: "short_memory m1 = short_memory m"
    "MADDPG.batch_size m1 = MADDPG.batch_size m" by simp_all
  from rest k False show ?thesis by (auto dest!: bind_e_Inr split: if_splits)
qed

lemma learn_gates:
  "learn opt m idx flag nt bl bsh =
     (if mem_cntr (memory m) < MADDPG.batch_size m then Inr (m, [])
      else if mem_cntr (short_memory m) < MADDPG.batch_size m
      then bind_e (learn_pass opt m idx flag nt (memory m) bl) (\<lambda>m1. Inr (m1, [LongMemory]))
      else bind_e (learn_pass opt m idx flag nt (memory m) bl) (\<lambda>m1.
           bind_e (learn_pass opt m1 idx flag nt (short_memory m1) bsh) (\<lambda>m2.
             Inr (m2, [LongMemory, ShortMemory]))))"
proof (cases "learn_pass opt m idx flag nt (memory m) bl")
  case (Inl e)
  then show ?thesis by (simp add: learn_def bind_e_def)
next
  case (Inr m1)
  from learn_pass_keeps[OF Inr] have "short_memory m1 = short_memory m"
    "MADDPG.batch_size m1 = MADDPG.batch_size m" by simp_all
  with Inr show ?thesis by (simp add: learn_def bind_e_def)
qed

text \<open>
  C1 (as amended).  The counter of the short store does not saturate at 1: it counts every
  stored transition, although the store has capacity 1.  For a coordinator as its
  constructor built it that has remembered the transitions \<open>ts\<close>, the counter of the
  short store is \<open>length ts\<close>; with fewer than \<open>batch_size\<close> transitions \<open>learn\<close> returns
  at once, and with \<open>batch_size\<close> or more it runs the long-horizon pass and then the
  short-horizon pass, whatever the batch size is: when it returns, its short-horizon
  branch has run if and only if \<open>batch_size \<le> length ts\<close>.
\<close>

theorem short_pass_gate:
  assumes "MADDPG_init ags g bs d k n = Inr m0" and "remember_all m0 ts = Inr m"
  shows "mem_size (short_memory m) = 1 \<and> mem_cntr (short_memory m) = length ts \<and>
     learn opt m idx flag nt bl bsh =
       (if length ts < bs then Inr (m, [])
        else bind_e (learn_pass opt m idx flag nt (memory m) bl) (\<lambda>m1.
             bind_e (learn_pass opt m1 idx flag nt (short_memory m1) bsh) (\<lambda>m2.
               Inr (m2, [LongMemory, ShortMemory])))) \<and>
     (\<forall>m' passes. learn opt m idx flag nt bl bsh = Inr (m', passes) \<longrightarrow>
        (ShortMemory \<in> set passes \<longleftrightarrow> bs \<le> length ts))"
proof -
  note f = MADDPG_init_fresh[OF assms(1)] and c = remember_all_counters[OF assms(2)]
  from f c have k: "mem_size (short_memory m) = 1" "mem_cntr (short_memory m) = length ts"
    "mem_cntr (memory m) = length ts" "MADDPG.batch_size m = bs" by simp_all
  have eq: "learn opt m idx flag nt bl bsh =
       (if length ts < bs then Inr (m, [])
        else bind_e (learn_pass opt m idx flag nt (memory m) bl) (\<lambda>m1.
             bind_e (learn_pass opt m1 idx flag nt (short_memory m1) bsh) (\<lambda>m2.
               Inr (m2, [LongMemory, ShortMemory]))))"
    by (simp add: learn_gates k)
  have "\<forall>m' passes. learn opt m idx flag nt bl bsh = Inr (m', passes) \<longrightarrow>
        (ShortMemory \<in> set passes \<longleftrightarrow> bs \<le> length ts)"
    using learn_short_run[of opt m idx flag nt bl bsh] k by auto
  with k eq show ?thesis by blast
qed

theorem short_pass_gate_witness:
  "\<exists>m0 m m'. MADDPG_init [agent_of 4 0, agent_of 4 1] (99/100) 2 1 1 2 = Inr m0 \<and>
     remember_all m0 [tr1, tr2] = Inr m \<and>
     learn opt0 m 0 False 3 [0, 1] [0, 0] = Inr (m', [LongMemory, ShortMemory]) \<and>
     mem_size (short_memory m) = 1 \<and> mem_cntr (short_memory m) = 2 \<and>
     ShortMemory \<in> set [LongMemory, ShortMemory] \<and> (2::nat) \<le> length [tr1, tr2]"
proof -
  let ?ini = "projr (MADDPG_init [agent_of 4 0, agent_of 4 1] (99/100) 2 1 1 2)"
  let ?mem = "projr (remember_all ?ini [tr1, tr2])"
  let ?res = "projr (learn opt0 ?mem 0 False 3 [0, 1] [0, 0])"
  have h1: "MADDPG_init [agent_of 4 0, agent_of 4 1] (99/100) 2 1 1 2 = Inr ?ini"
    by (simp add: MADDPG_init_def ReplayBuffer_init_def bind_e_def)
  have h2: "remember_all ?ini [tr1, tr2] = Inr ?mem"
    by (simp add: eval_defs)
  have h3: "learn opt0 ?mem 0 False 3 [0, 1] [0, 0] = Inr (fst ?res, [LongMemory, ShortMemory])"
    by (simp add: eval_defs upt_2)
  note c = short_pass_gate[OF h1 h2, of opt0 0 False 3 "[0, 1]" "[0, 0]"]
  from c have c1: "mem_size (short_memory ?mem) = 1" by blast
  from c have c2: "mem_cntr (short_memory ?mem) = 2" by simp
  have c3: "ShortMemory \<in> set [LongMemory, ShortMemory]" "(2::nat) \<le> length [tr1, tr2]"
    by simp_all
  show ?thesis using h1 h2 h3 c1 c2 c3 by blast
qed

text \<open>
  C1 as stated fails: with \<open>batch_size = 2 > 1\<close>, two agents and two remembered
  transitions, the short store (capacity 1) has its counter at 2, the test
  \<open>counter \<ge> batch_size\<close> holds and \<open>learn\<close> runs its short-horizon branch.
\<close>

theorem learn_runs_short:
  "bind_e (MADDPG_init [agent_of 4 0, agent_of 4 1] (99/100) 2 1 1 2) (\<lambda>m0.
   bind_e (remember_all m0 [tr1, tr2]) (\<lambda>m.
   bind_e (learn opt0 m 0 False 3 [0, 1] [0, 0]) (\<lambda>r.
     Inr (MADDPG.batch_size m, mem_size (short_memory m), mem_cntr (short_memory m), snd r))))
   = Inr (2, 1, 2, [LongMemory, ShortMemory])"
  by (simp add: eval_defs upt_2)

text \<open>
  C10.  Whenever the short-horizon branch of \<open>learn\<close> runs, on a coordinator that has
  remembered the transitions \<open>ts\<close> (fitting the shapes of the stores) with a batch size
  of at least 1: the only indices \<open>np.random.choice\<close> can draw are zeros, the batch that
  the pass over the short store draws with \<open>sample_buffer\<close> is made of \<open>batch_size\<close>
  copies of the transition remembered last, and the pass over the short store is the
  learning step of lines 143 to 227 on this very batch, whose result \<open>learn\<close> returns.
\<close>

theorem short_pass_batch:
  assumes init: "MADDPG_init ags g bs d k n = Inr m0" and rem: "remember_all m0 ts = Inr m"
    and shaped: "list_all (transition_shaped d k n) ts"
    and run: "learn opt m idx flag nt bl bsh = Inr (m', passes)"
    and short: "ShortMemory \<in> set passes" and bs: "1 \<le> bs"
    and draw: "random_choice (min (mem_cntr (short_memory m)) (mem_size (short_memory m))) bs bsh"
    and last: "last ts = (s, a, r, os, oa)"
  shows "\<exists>m1 agent. learn_pass opt m idx flag nt (memory m) bl = Inr m1 \<and>
      \<not> mem_cntr (short_memory m1) < MADDPG.batch_size m1 \<and> bsh = replicate bs 0 \<and>
      sample_buffer (short_memory m1) (MADDPG.batch_size m1) bsh =
        Inr (replicate bs s, replicate bs a, replicate bs r, replicate bs os, replicate bs oa) \<and>
      nth_e (agents m1) idx = Inr agent \<and>
      learn_pass opt m1 idx flag nt (short_memory m1) bsh =
        learn_on_batch opt m1 idx flag nt agent
          (replicate bs s, replicate bs a, replicate bs r, replicate bs os, replicate bs oa) \<and>
      learn_on_batch opt m1 idx flag nt agent
          (replicate bs s, replicate bs a, replicate bs r, replicate bs os, replicate bs oa) =
        Inr m' \<and>
      passes = [LongMemory, ShortMemory]"
proof -
  note fresh = MADDPG_init_fresh[OF init]
  note cnt = remember_all_counters[OF rem]
  from learn_short_run[OF run] short fresh cnt bs have len: "bs \<le> length ts" "ts \<noteq> []"
    by auto
  from init obtain b0 where b0: "ReplayBuffer_init 1 d k n = Inr b0" "short_memory m0 = b0"
    by (auto simp: MADDPG_init_def dest!: bind_e_Inr)
  from ReplayBuffer_init_shaped[OF b0(1)] have b0s: "mem_size b0 = 1" "buffer_shaped d k n b0"
    by simp_all
  from remember_all_stores[OF rem] b0 have st: "store_all b0 ts = Inr (short_memory m)" by simp
  from store_all_capacity_one[OF b0s shaped len(2) st last]
  have arrays: "state_memory (short_memory m) = [s]" "action_memory (short_memory m) = [a]"
    "reward_memory (short_memory m) = [r]" "others_states (short_memory m) = [os]"
    "others_actions (short_memory m) = [oa]" by simp_all
  from fresh cnt len have cs: "mem_cntr (short_memory m) = length ts" "mem_size (short_memory m) = 1"
    "MADDPG.batch_size m = bs" by simp_all
  from len(2) have "min (length ts) (Suc 0) = Suc 0" by (cases ts) simp_all
  with draw cs have one: "random_choice (Suc 0) bs bsh" by simp
  then have all0: "list_all (\<lambda>i. i < Suc 0) bsh" and lb: "length bsh = bs"
    by (simp_all add: random_choice_def)
  let ?B = "(replicate bs s, replicate bs a, replicate bs r, replicate bs os, replicate bs oa)"
  have sample: "sample_buffer (short_memory m) bs bsh = Inr ?B"
    using arrays cs len lb
    by (simp add: sample_buffer_def Let_def bind_e_def gather_single[OF all0])
  from run short obtain m1 where m1: "learn_pass opt m idx flag nt (memory m) bl = Inr m1"
    and sp: "learn_pass opt m1 idx flag nt (short_memory m1) bsh = Inr m'"
    and ps: "passes = [LongMemory, ShortMemory]"
    by (auto simp: learn_def dest!: bind_e_Inr split: if_splits)
  from learn_pass_keeps[OF m1] have k: "short_memory m1 = short_memory m"
    "MADDPG.batch_size m1 = MADDPG.batch_size m" by simp_all
  from sp obtain agent where ag: "nth_e (agents m1) idx = Inr agent"
    unfolding learn_pass_def by (blast dest: bind_e_Inr)
  from ag sample k cs have eq: "learn_pass opt m1 idx flag nt (short_memory m1) bsh =
      learn_on_batch opt m1 idx flag nt agent ?B"
    by (simp add: learn_pass_def bind_e_def)
  with sp have res: "learn_on_batch opt m1 idx flag nt agent ?B = Inr m'" by simp
  from k cs len have gate: "\<not> mem_cntr (short_memory m1) < MADDPG.batch_size m1" by simp
  from sample k cs have sample1: "sample_buffer (short_memory m1) (MADDPG.batch_size m1) bsh = Inr ?B"
    by simp
  from m1 gate random_choice_one[OF one] sample1 ag eq res ps show ?thesis by blast
qed

theorem short_pass_batch_witness:
  "\<exists>m0 m m' m1 agent. MADDPG_init [agent_of 4 0, agent_of 4 1] (99/100) 2 1 1 2 = Inr m0 \<and>
     remember_all m0 [tr1, tr2] = Inr m \<and> list_all (transition_shaped 1 1 2) [tr1, tr2] \<and>
     learn opt0 m 1 False 3 [1, 0] [0, 0] = Inr (m', [LongMemory, ShortMemory]) \<and>
     ShortMemory \<in> set [LongMemory, ShortMemory] \<and> (1::nat) \<le> 2 \<and>
     random_choice (min (mem_cntr (short_memory m)) (mem_size (short_memory m))) 2 [0, 0] \<and>
     last [tr1, tr2] = ([7/10], [1/5], 2, [2/5], [1/10]) \<and>
     learn_pass opt0 m 1 False 3 (memory m) [1, 0] = Inr m1 \<and>
     sample_buffer (short_memory m1) (MADDPG.batch_size m1) [0, 0] =
       Inr ([[7/10], [7/10]], [[1/5], [1/5]], [2, 2], [[2/5], [2/5]], [[1/10], [1/10]]) \<and>
     nth_e (agents m1) 1 = Inr agent \<and>
     learn_pass opt0 m1 1 False 3 (short_memory m1) [0, 0] =
       learn_on_batch opt0 m1 1 False 3 agent
         ([[7/10], [7/10]], [[1/5], [1/5]], [2, 2], [[2/5], [2/5]], [[1/10], [1/10]]) \<and>
     learn_on_batch opt0 m1 1 False 3 agent
         ([[7/10], [7/10]], [[1/5], [1/5]], [2, 2], [[2/5], [2/5]], [[1/10], [1/10]]) = Inr m'"
proof -
  let ?ini = "projr (MADDPG_init [agent_of 4 0, agent_of 4 1] (99/100) 2 1 1 2)"
  let ?mem = "projr (remember_all ?ini [tr1, tr2])"
  let ?res = "projr (learn opt0 ?mem 1 False 3 [1, 0] [0, 0])"
  have h1: "MADDPG_init [agent_of 4 0, agent_of 4 1] (99/100) 2 1 1 2 = Inr ?ini"
    by (simp add: MADDPG_init_def ReplayBuffer_init_def bind_e_def)
  have h2: "remember_all ?ini [tr1, tr2] = Inr ?mem"
    by (simp add: eval_defs)
  have h3: "list_all (transition_shaped 1 1 2) [tr1, tr2]" by (simp add: tr1_def tr2_def)
  have h4: "learn opt0 ?mem 1 False 3 [1, 0] [0, 0] = Inr (fst ?res, [LongMemory, ShortMemory])"
    by (simp add: eval_defs upt_2)
  have h5: "ShortMemory \<in> set [LongMemory, ShortMemory]" "(1::nat) \<le> 2" by simp_all
  have h6: "random_choice (min (mem_cntr (short_memory ?mem)) (mem_size (short_memory ?mem))) 2 [0, 0]"
    by (simp add: eval_defs random_choice_def)
  have h7: "last [tr1, tr2] = ([7/10], [1/5], 2, [2/5], [1/10])" by (simp add: tr2_def)
  have r2: "replicate 2 x = [x, x]" for x :: 'a by (simp add: numeral_2_eq_2)
  from short_pass_batch[OF h1 h2 h3 h4 h5 h6 h7, unfolded r2] obtain m1 agent where
    m1: "learn_pass opt0 ?mem 1 False 3 (memory ?mem) [1, 0] = Inr m1"
    and sb: "sample_buffer (short_memory m1) (MADDPG.batch_size m1) [0, 0] =
       Inr ([[7/10], [7/10]], [[1/5], [1/5]], [2, 2], [[2/5], [2/5]], [[1/10], [1/10]])"
    and ag: "nth_e (agents m1) 1 = Inr agent"
    and eq: "learn_pass opt0 m1 1 False 3 (short_memory m1) [0, 0] =
       learn_on_batch opt0 m1 1 False 3 agent
         ([[7/10], [7/10]], [[1/5], [1/5]], [2, 2], [[2/5], [2/5]], [[1/10], [1/10]])"
    and res: "learn_on_batch opt0 m1 1 False 3 agent
         ([[7/10], [7/10]], [[1/5], [1/5]], [2, 2], [[2/5], [2/5]], [[1/10], [1/10]]) = Inr (fst ?res)"
    by blast
  show ?thesis using h1 h2 h3 h4 h5 h6 h7 m1 sb ag eq res by blast
qed


section \<open>The agent: soft update of the targets\<close>

lemma concat_map2:
  "list_all2 (\<lambda>r s. length r = length s) A B \<Longrightarrow>
     concat (map2 (map2 f) A B) = map2 f (concat A) (concat B)"
  by (induction rule: list_all2_induct) (simp_all add: zip_append)

lemma length_concat_eq:
  "list_all2 (\<lambda>r s. length r = length s) A B \<Longrightarrow> length (concat A) = length (concat B)"
  by (induction rule: list_all2_induct) simp_all

lemma map2_blend_one: "length xs = length ys \<Longrightarrow> map2 (blend 1) xs ys = xs"
  by (induction xs ys rule: list_induct2) (simp_all add: blend_def)

lemma map2_blend_zero: "length xs = length ys \<Longrightarrow> map2 (blend 0) xs ys = ys"
  by (induction xs ys rule: list_induct2) (simp_all add: blend_def)

lemma mat_blend_one:
  "list_all2 (\<lambda>r s. length r = length s) A B \<Longrightarrow> map2 (map2 (blend 1)) A B = A"
  by (induction rule: list_all2_induct) (simp_all add: map2_blend_one)

lemma mat_blend_zero:
  "list_all2 (\<lambda>r s. length r = length s) A B \<Longrightarrow> map2 (map2 (blend 0)) A B = B"
  by (induction rule: list_all2_induct) (simp_all add: map2_blend_zero)

lemma update_layer_one: "same_shape l tgt \<Longrightarrow> update_layer 1 tgt l = l"
  by (simp add: same_shape_def update_layer_def mat_blend_one map2_blend_one)

lemma update_layer_zero: "same_shape l tgt \<Longrightarrow> update_layer 0 tgt l = tgt"
  by (simp add: same_shape_def update_layer_def mat_blend_zero map2_blend_zero)

lemma layer_parameters_update:
  "same_shape l tgt \<Longrightarrow>
     layer_parameters (update_layer t tgt l) =
       map2 (map2 (\<lambda>p tp. t * p + (1 - t) * tp)) (layer_parameters l) (layer_parameters tgt)"
proof -
  have b: "blend t = (\<lambda>p tp. t * p + (1 - t) * tp)" by (intro ext) (simp add: blend_def)
  assume "same_shape l tgt"
  then show ?thesis
    by (simp add: same_shape_def update_layer_def layer_parameters_def concat_map2 b)
qed

lemma layer_parameters_lengths:
  "same_shape l tgt \<Longrightarrow> map length (layer_parameters l) = map length (layer_parameters tgt)"
  by (simp add: same_shape_def layer_parameters_def length_concat_eq)

lemma map2_append2:
  "length xs = length ys \<Longrightarrow> map2 f (xs @ xs') (ys @ ys') = map2 f xs ys @ map2 f xs' ys'"
  by (simp add: zip_append)

lemma length_layer_parameters: "length (layer_parameters l) = 2"
  by (simp add: layer_parameters_def)

text \<open>
  C4.  For an agent whose target networks have the shapes of its live networks,
  \<open>update_network_parameters(tau)\<close> leaves the live networks alone and replaces every
  parameter of the target actor and of the target critic by
  \<open>tau * live + (1 - tau) * target\<close>, entry by entry over \<open>parameters()\<close>; without an
  argument it uses the agent's own \<open>tau\<close>; with \<open>tau = 1\<close> the targets become the live
  networks, which is the one call the constructor makes; with \<open>tau = 0\<close> nothing changes.
\<close>

theorem update_network_parameters_blend:
  assumes "targets_shaped a"
  shows "actor (update_network_parameters a (Some t)) = actor a \<and>
     critic (update_network_parameters a (Some t)) = critic a \<and>
     actor_parameters (target_actor (update_network_parameters a (Some t))) =
       map2 (map2 (\<lambda>p tp. t * p + (1 - t) * tp))
         (actor_parameters (actor a)) (actor_parameters (target_actor a)) \<and>
     critic_parameters (target_critic (update_network_parameters a (Some t))) =
       map2 (map2 (\<lambda>p tp. t * p + (1 - t) * tp))
         (critic_parameters (critic a)) (critic_parameters (target_critic a)) \<and>
     map length (actor_parameters (actor a)) = map length (actor_parameters (target_actor a)) \<and>
     map length (critic_parameters (critic a)) = map length (critic_parameters (target_critic a)) \<and>
     update_network_parameters a None = update_network_parameters a (Some (tau a)) \<and>
     update_network_parameters a (Some 1) = a\<lparr>target_actor := actor a, target_critic := critic a\<rparr> \<and>
     update_network_parameters a (Some 0) = a \<and>
     Agent_init (tau a) (Agent.gamma a) (Agent.batch_size a) (total_episodes a) (noise_std a)
         (actor a) (critic a) (target_actor a) (target_critic a) =
       a\<lparr>target_actor := actor a, target_critic := critic a\<rparr>"
proof -
  from assms have sh:
    "same_shape (ActorNetwork.fc1 (actor a)) (ActorNetwork.fc1 (target_actor a))"
    "same_shape (ActorNetwork.fc2 (actor a)) (ActorNetwork.fc2 (target_actor a))"
    "same_shape (mu (actor a)) (mu (target_actor a))"
    "same_shape (CriticNetwork.fc1 (critic a)) (CriticNetwork.fc1 (target_critic a))"
    "same_shape (CriticNetwork.fc2 (critic a)) (CriticNetwork.fc2 (target_critic a))"
    "same_shape (q (critic a)) (q (target_critic a))"
    by (simp_all add: targets_shaped_def)
  have live: "actor (update_network_parameters a (Some t)) = actor a"
    "critic (update_network_parameters a (Some t)) = critic a"
    by (simp_all add: update_network_parameters_def Let_def)
  have pa: "actor_parameters (target_actor (update_network_parameters a (Some t))) =
       map2 (map2 (\<lambda>p tp. t * p + (1 - t) * tp))
         (actor_parameters (actor a)) (actor_parameters (target_actor a))"
    using sh(1-3)
    by (simp add: update_network_parameters_def Let_def actor_parameters_def
        layer_parameters_update map2_append2 length_layer_parameters)
  have pc: "critic_parameters (target_critic (update_network_parameters a (Some t))) =
       map2 (map2 (\<lambda>p tp. t * p + (1 - t) * tp))
         (critic_parameters (critic a)) (critic_parameters (target_critic a))"
    using sh(4-6)
    by (simp add: update_network_parameters_def Let_def critic_parameters_def
        layer_parameters_update map2_append2 length_layer_parameters)
  have la: "map length (actor_parameters (actor a)) = map length (actor_parameters (target_actor a))"
    using sh(1-3) by (simp add: actor_parameters_def layer_parameters_lengths)
  have lc: "map length (critic_parameters (critic a)) = map length (critic_parameters (target_critic a))"
    using sh(4-6) by (simp add: critic_parameters_def layer_parameters_lengths)
  have none: "update_network_parameters a None = update_network_parameters a (Some (tau a))"
    by (simp add: update_network_parameters_def)
  have one: "update_network_parameters a (Some 1) =
      a\<lparr>target_actor := actor a, target_critic := critic a\<rparr>"
    using sh by (simp add: update_network_parameters_def Let_def update_layer_one)
  have zero: "update_network_parameters a (Some 0) = a"
    using sh by (simp add: update_network_parameters_def Let_def update_layer_zero)
  have init: "Agent_init (tau a) (Agent.gamma a) (Agent.batch_size a) (total_episodes a) (noise_std a)
         (actor a) (critic a) (target_actor a) (target_critic a) =
       a\<lparr>target_actor := actor a, target_critic := critic a\<rparr>"
  proof -
    have r: "\<lparr>Agent.gamma = Agent.gamma a, tau = tau a, Agent.batch_size = Agent.batch_size a,
        total_episodes = total_episodes a, noise_std = noise_std a, actor = actor a,
        critic = critic a, target_actor = target_actor a, target_critic = target_critic a\<rparr> = a"
      by (cases a) simp
    show ?thesis unfolding Agent_init_def r by (rule one)
  qed
  show ?thesis using live pa pc la lc none one zero init by blast
qed

theorem update_network_parameters_blend_witness:
  "targets_shaped agent_raw \<and>
   actor_parameters (target_actor (update_network_parameters agent_raw (Some (1/4)))) =
     [[1], [0], [1], [0], [0], [4]] \<and>
   actor_parameters (actor agent_raw) = [[1], [0], [1], [0], [0], [1]] \<and>
   actor_parameters (target_actor agent_raw) = [[1], [0], [1], [0], [0], [5]] \<and>
   target_actor (update_network_parameters agent_raw (Some 1)) = actor_net 1 \<and>
   target_actor (update_network_parameters agent_raw (Some 0)) = actor_net 5"
proof -
  have h: "targets_shaped agent_raw"
    by (simp add: targets_shaped_def agent_raw_def same_shape_def actor_net_def critic_net_def
        lin_def)
  have p: "actor_parameters (actor agent_raw) = [[1], [0], [1], [0], [0], [1]]"
    "actor_parameters (target_actor agent_raw) = [[1], [0], [1], [0], [0], [5]]"
    by (simp_all add: agent_raw_def actor_parameters_def layer_parameters_def actor_net_def lin_def)
  note c = update_network_parameters_blend[OF h, of "1/4"]
  from c p have c1: "actor_parameters (target_actor (update_network_parameters agent_raw (Some (1/4)))) =
     [[1], [0], [1], [0], [0], [4]]" by simp
  from c have c2: "target_actor (update_network_parameters agent_raw (Some 1)) = actor_net 1"
    by (simp add: agent_raw_def)
  from c have c3: "target_actor (update_network_parameters agent_raw (Some 0)) = actor_net 5"
    by (simp add: agent_raw_def)
  show ?thesis using h p c1 c2 c3 by blast
qed


section \<open>The agent: choosing an action\<close>

lemma sigmoid_range: "0 < sigmoid x \<and> sigmoid x < 1"
proof -
  have "0 < exp (- x)" by simp
  then show ?thesis by (simp add: sigmoid_def add_pos_pos)
qed

lemma actor_forward_row_range:
  assumes "actor_forward_row net x = Inr r"
  shows "\<forall>y\<in>set r. 0 < y \<and> y < 1"
proof -
  from assms obtain z where "r = map sigmoid z"
    by (auto simp: actor_forward_row_def dest!: bind_e_Inr)
  then show ?thesis by (auto simp: sigmoid_range)
qed

lemma map_e_set:
  assumes "map_e f xs = Inr ys" and "y \<in> set ys"
  shows "\<exists>x\<in>set xs. f x = Inr y"
  using assms
  by (induction xs arbitrary: ys) (auto split: sum.splits)

lemma map_e_length: "map_e f xs = Inr ys \<Longrightarrow> length ys = length xs"
  by (induction xs arbitrary: ys) (auto split: sum.splits)


lemma actor_forward_range:
  assumes "actor_forward net state = Inr action"
  shows "\<forall>row\<in>set action. \<forall>y\<in>set row. 0 < y \<and> y < 1"
proof
  fix row assume "row \<in> set action"
  with assms obtain x where "actor_forward_row net x = Inr row"
    unfolding actor_forward_def by (blast dest: map_e_set)
  then show "\<forall>y\<in>set row. 0 < y \<and> y < 1" by (rule actor_forward_row_range)
qed

lemma clamp_range: "0 \<le> clamp 0 1 x \<and> clamp 0 1 x \<le> 1"
  by (simp add: clamp_def)

text \<open>
  C7.  Whatever the observation, the episode, the evaluation flag, the noise draw and the
  weights are, when \<open>choose_action\<close> returns, it returns one row and every component of
  it lies in \<open>[0, 1]\<close>: the actor ends in a sigmoid, and the noisy action is clamped.
\<close>

theorem choose_action_in_unit_interval:
  assumes "choose_action a observation episode evaluation z = Inr action"
  shows "length action = 1 \<and> (\<forall>row\<in>set action. \<forall>y\<in>set row. 0 \<le> y \<and> y \<le> 1)"
proof -
  from assms obtain act where fw: "actor_forward (actor a) [observation] = Inr act"
    and rest: "(if \<not> evaluation then
         bind_e (np_random_normal 0 (noise_std a) z) (\<lambda>noise.
           if total_episodes a = 0 then Inl ZeroDivisionError
           else
             let decay = 1 - (real_of_int episode / real_of_int (total_episodes a));
                 action = map (map (\<lambda>x. x + noise * decay)) act
             in Inr (map (map (clamp 0 1)) action))
       else Inr act) = Inr action"
    unfolding choose_action_def by (blast dest: bind_e_Inr)
  from fw[unfolded actor_forward_def] have "length act = length [observation]"
    by (rule map_e_length)
  then have len: "length act = 1" by simp
  show ?thesis
  proof (cases evaluation)
    case True
    with rest have "action = act" by simp
    with actor_forward_range[OF fw] len show ?thesis by (auto intro: less_imp_le)
  next
    case False
    with rest obtain noise where
      eq: "(if total_episodes a = 0 then Inl ZeroDivisionError
           else
             let decay = 1 - (real_of_int episode / real_of_int (total_episodes a));
                 action = map (map (\<lambda>x. x + noise * decay)) act
             in Inr (map (map (clamp 0 1)) action)) = Inr action"
      by (auto dest!: bind_e_Inr)
    then have "action = map (map (clamp 0 1))
        (map (map (\<lambda>x. x + noise * (1 - (real_of_int episode / real_of_int (total_episodes a))))) act)"
      by (simp add: Let_def split: if_splits)
    with len show ?thesis by (auto simp: clamp_range)
  qed
qed

text \<open>The definitions that evaluate an agent on concrete inputs.\<close>

lemmas agent_defs = agent_of_def Agent_init_def update_network_parameters_def
      update_layer_def blend_def actor_net_def critic_net_def lin_def actor_forward_def
      actor_forward_row_def linear_def dot_def relu_def sigmoid_def bind_e_def Let_def
      np_random_normal_def

theorem choose_action_in_unit_interval_witness:
  "choose_action (agent_of 4 0) [1/2] 50000 False 50 = Inr [[1]] \<and>
   length [[1::real]] = 1 \<and> list_all (list_all (\<lambda>y. 0 \<le> y \<and> y \<le> 1)) [[1::real]]"
proof -
  have h: "choose_action (agent_of 4 0) [1/2] 50000 False 50 = Inr [[1]]"
    by (simp add: choose_action_def agent_defs clamp_def)
  from choose_action_in_unit_interval[OF h] have "list_all (list_all (\<lambda>y. 0 \<le> y \<and> y \<le> 1)) [[1::real]]"
    by (simp add: list_all_iff)
  with h show ?thesis by simp
qed

text \<open>
  C6 (as amended).  With a non-negative \<open>noise_std\<close> and a positive \<open>total_episodes\<close>:
  with the evaluation flag set, \<open>choose_action\<close> returns the actor's output; with the
  flag unset it adds to every component the noise \<open>(noise_std * decay) * z\<close>, where \<open>z\<close>
  is the standard normal draw behind \<open>np.random.normal(0, noise_std)\<close> and
  \<open>decay = 1 - episode / total_episodes\<close>, and clamps the sum to \<open>[0, 1]\<close>: the noise is
  a zero-mean Gaussian scaled by \<open>noise_std * decay\<close>, of standard deviation
  \<open>noise_std * |decay|\<close>.  The decay is not clamped: it is
  \<open>max(0, 1 - episode / total_episodes)\<close> as long as \<open>episode \<le> total_episodes\<close>, and
  negative beyond, where the spec's decay is 0.
\<close>

theorem choose_action_noise:
  assumes "actor_forward (actor a) [observation] = Inr action"
    and "0 \<le> noise_std a" and "0 < total_episodes a"
  shows "choose_action a observation episode True z = Inr action \<and>
     choose_action a observation episode False z =
       Inr (map (map (\<lambda>x. clamp 0 1
              (x + (noise_std a * (1 - real_of_int episode / real_of_int (total_episodes a))) * z)))
            action) \<and>
     \<bar>noise_std a * (1 - real_of_int episode / real_of_int (total_episodes a))\<bar> =
       noise_std a * \<bar>1 - real_of_int episode / real_of_int (total_episodes a)\<bar> \<and>
     (if episode \<le> total_episodes a
      then 1 - real_of_int episode / real_of_int (total_episodes a) = decay_spec episode (total_episodes a)
      else 1 - real_of_int episode / real_of_int (total_episodes a) < 0 \<and>
           decay_spec episode (total_episodes a) = 0)"
proof -
  have ev: "choose_action a observation episode True z = Inr action"
    using assms(1) by (simp add: choose_action_def bind_e_def)
  have n: "np_random_normal 0 (noise_std a) z = Inr (noise_std a * z)"
    using assms(2) by (simp add: np_random_normal_def)
  have nev: "choose_action a observation episode False z =
       Inr (map (map (\<lambda>x. clamp 0 1
              (x + (noise_std a * (1 - real_of_int episode / real_of_int (total_episodes a))) * z)))
            action)"
    using assms(1,3) n
    by (simp add: choose_action_def bind_e_def Let_def comp_def ac_simps)
  have sd: "\<bar>noise_std a * (1 - real_of_int episode / real_of_int (total_episodes a))\<bar> =
       noise_std a * \<bar>1 - real_of_int episode / real_of_int (total_episodes a)\<bar>"
    using assms(2) by (simp add: abs_mult)
  have T: "0 < real_of_int (total_episodes a)" using assms(3) by simp
  have d: "(if episode \<le> total_episodes a
      then 1 - real_of_int episode / real_of_int (total_episodes a) = decay_spec episode (total_episodes a)
      else 1 - real_of_int episode / real_of_int (total_episodes a) < 0 \<and>
           decay_spec episode (total_episodes a) = 0)"
    using T by (auto simp: decay_spec_def max_def divide_simps)
  show ?thesis using ev nev sd d by blast
qed

theorem choose_action_noise_witness:
  "actor_forward (actor (agent_of 4 0)) [[1/2]] = Inr [[1/2]] \<and> 0 \<le> noise_std (agent_of 4 0) \<and>
   0 < total_episodes (agent_of 4 0) \<and> noise_std (agent_of 4 0) = 1/5 \<and>
   choose_action (agent_of 4 0) [1/2] 25000 False 2 = Inr [[4/5]] \<and>
   decay_spec 25000 100000 = 3/4"
proof -
  have h: "actor_forward (actor (agent_of 4 0)) [[1/2]] = Inr [[1/2]]"
    "0 \<le> noise_std (agent_of 4 0)" "0 < total_episodes (agent_of 4 0)"
    by (simp_all add: agent_defs)
  have t: "total_episodes (agent_of 4 0) = 100000" "noise_std (agent_of 4 0) = 1/5"
    by (simp_all add: agent_defs)
  note c = choose_action_noise[OF h, of 25000 2]
  from c have c1: "choose_action (agent_of 4 0) [1/2] 25000 False 2 = Inr [[4/5]]"
    by (simp add: t clamp_def)
  from c have c2: "decay_spec 25000 100000 = 3/4" by (simp add: t)
  show ?thesis using h t c1 c2 by blast
qed

text \<open>
  C6 as stated fails beyond the last episode: at episode 200000 of 100000 the decay is
  \<open>-1\<close>, and with \<open>noise_std = 0.2\<close> the standard draw \<open>z = 1\<close> moves the actor's output
  \<open>0.5\<close> to \<open>0.3\<close>, where a decay clamped to 0 would leave it at \<open>0.5\<close>, the output with
  the evaluation flag set.
\<close>

theorem choose_action_decay_negative:
  "total_episodes (agent_of 4 0) = 100000 \<and> noise_std (agent_of 4 0) = 1/5 \<and>
   choose_action (agent_of 4 0) [1/2] 200000 True 1 = Inr [[1/2]] \<and>
   choose_action (agent_of 4 0) [1/2] 200000 False 1 = Inr [[3/10]] \<and>
   decay_spec 200000 100000 = 0"
  by (simp add: choose_action_def agent_defs clamp_def decay_spec_def)

text \<open>
  C9.  The claim fails on the code: the bound is \<open>scale / sqrt\<close> of the number of rows of
  the weight matrix, which is the number of outputs of the layer, not of its inputs.
  For the output layer of an actor with four hidden units and one action
  (\<open>nn.Linear(4, 1)\<close>, scale 0.003) the code's bound is 0.003, where
  \<open>scale / sqrt(fan_in)\<close> is 0.0015; a weight of 0.002 is a possible draw.
\<close>

theorem init_limit_rows:
  "in_features (lin 4 0 0) = 4 \<and> out_features (lin 4 0 0) = 1 \<and>
   init_limit (lin 4 0 0) (3/1000) = 3/1000 \<and>
   (3/1000) / sqrt (real (in_features (lin 4 0 0))) = 3/2000 \<and>
   uniform_draw (lin 4 0 0) (3/1000) [[1/500, 0, 0, 0]] [0] \<and>
   weight (init_layer (lin 4 0 0) [[1/500, 0, 0, 0]] [0]) = [[1/500, 0, 0, 0]]"
proof -
  have "sqrt 4 = 2" by (rule real_sqrt_four)
  then show ?thesis
    by (simp add: lin_def init_limit_def uniform_draw_def has_shape_def in_limit_def init_layer_def)
qed


section \<open>The coordinator: the learning step\<close>

lemma remove1_upt:
  assumes "idx < n"
  shows "remove1 idx [0..<n] = [0..<idx] @ [Suc idx..<n]"
proof -
  from assms have "[0..<n] = [0..<idx] @ idx # [Suc idx..<n]"
    by (metis le_add2 le_add_same_cancel2 less_imp_add_positive upt_add_eq_append upt_conv_Cons)
  then show ?thesis by (simp add: remove1_append)
qed

lemma remove1_upt_nth:
  assumes "idx < n" and "k < n - 1"
  shows "remove1 idx [0..<n] ! k = (if k < idx then k else Suc k)"
  using assms by (simp add: remove1_upt nth_append)













section \<open>The replay buffer: the most recent entries\<close>

text \<open>
  Where \<open>sample_last_buffer\<close> does what its docstring says, and where it does not: as
  long as the buffer has not wrapped around (at most \<open>mem_size\<close> stores), it returns the
  last \<open>min(mem_cntr, batch_size)\<close> stored transitions in the order they were stored;
  once the counter has passed the capacity, \<open>sample_last_buffer(1)\<close> returns nothing.
\<close>

lemma sample_last_buffer_past_capacity:
  assumes "mem_size b < mem_cntr b" and "buffer_shaped d k n b"
  shows "sample_last_buffer b 1 = ([], [], [], [], [])"
proof -
  from assms(2) have len: "length (state_memory b) = mem_size b" "length (action_memory b) = mem_size b"
    "length (reward_memory b) = mem_size b" "length (others_states b) = mem_size b"
    "length (others_actions b) = mem_size b"
    by (simp_all add: buffer_shaped_def has_shape_def)
  with assms(1) show ?thesis by (simp add: sample_last_buffer_def slice_def)
qed

lemma take_update_snoc: "c < length arr \<Longrightarrow> take (Suc c) (arr[c := x]) = take c arr @ [x]"
  by (simp add: take_Suc_conv_app_nth)

lemma store_all_prefix:
  assumes "buffer_shaped d k n b" and "mem_cntr b + length ts \<le> mem_size b"
    and "list_all (transition_shaped d k n) ts" and "store_all b ts = Inr b'"
  shows "take (mem_cntr b + length ts) (state_memory b') =
       take (mem_cntr b) (state_memory b) @ map (\<lambda>(s, a, r, os, oa). s) ts \<and>
     take (mem_cntr b + length ts) (action_memory b') =
       take (mem_cntr b) (action_memory b) @ map (\<lambda>(s, a, r, os, oa). a) ts \<and>
     take (mem_cntr b + length ts) (reward_memory b') =
       take (mem_cntr b) (reward_memory b) @ map (\<lambda>(s, a, r, os, oa). r) ts \<and>
     take (mem_cntr b + length ts) (others_states b') =
       take (mem_cntr b) (others_states b) @ map (\<lambda>(s, a, r, os, oa). os) ts \<and>
     take (mem_cntr b + length ts) (others_actions b') =
       take (mem_cntr b) (others_actions b) @ map (\<lambda>(s, a, r, os, oa). oa) ts"
  using assms
proof (induction ts arbitrary: b)
  case Nil
  then show ?case by simp
next
  case (Cons t ts)
  obtain s a r os oa where t: "t = (s, a, r, os, oa)" by (cases t) auto
  from Cons.prems t have tsh: "transition_shaped d k n (s, a, r, os, oa)"
    and rest: "list_all (transition_shaped d k n) ts" by simp_all
  from Cons.prems(2) have c: "mem_cntr b < mem_size b" by simp
  then have pos: "0 < mem_size b" by simp
  from Cons.prems(4) t obtain b1 where
    b1: "store_transition b s a r os oa = Inr b1" and b': "store_all b1 ts = Inr b'"
    by (auto split: sum.splits)
  from store_transition_shaped[OF pos Cons.prems(1) tsh b1]
  have inv: "buffer_shaped d k n b1" "mem_size b1 = mem_size b" "mem_cntr b1 = mem_cntr b + 1"
    by simp_all
  from Cons.prems(1) have len: "length (state_memory b) = mem_size b"
    "length (action_memory b) = mem_size b" "length (reward_memory b) = mem_size b"
    "length (others_states b) = mem_size b" "length (others_actions b) = mem_size b"
    by (simp_all add: buffer_shaped_def has_shape_def)
  from b1 store_transition_fits[OF pos Cons.prems(1) tsh] c
  have arrays: "state_memory b1 = (state_memory b)[mem_cntr b := s]"
    "action_memory b1 = (action_memory b)[mem_cntr b := a]"
    "reward_memory b1 = (reward_memory b)[mem_cntr b := r]"
    "others_states b1 = (others_states b)[mem_cntr b := os]"
    "others_actions b1 = (others_actions b)[mem_cntr b := oa]"
    by auto
  from Cons.prems(2) inv have le: "mem_cntr b1 + length ts \<le> mem_size b1" by simp
  from Cons.IH[OF inv(1) le rest b'] inv(3) arrays len c t
  show ?case by (simp add: take_update_snoc)
qed

lemma sample_last_buffer_unwrapped:
  assumes "ReplayBuffer_init c d k n = Inr b0" and "length ts \<le> c"
    and "list_all (transition_shaped d k n) ts" and "store_all b0 ts = Inr b"
  shows "sample_last_buffer b bs =
     (map (\<lambda>(s, a, r, os, oa). s) (drop (length ts - min (length ts) bs) ts),
      map (\<lambda>(s, a, r, os, oa). a) (drop (length ts - min (length ts) bs) ts),
      map (\<lambda>(s, a, r, os, oa). r) (drop (length ts - min (length ts) bs) ts),
      map (\<lambda>(s, a, r, os, oa). os) (drop (length ts - min (length ts) bs) ts),
      map (\<lambda>(s, a, r, os, oa). oa) (drop (length ts - min (length ts) bs) ts))"
proof -
  note i = ReplayBuffer_init_shaped[OF assms(1)]
  from i assms(2) have le: "mem_cntr b0 + length ts \<le> mem_size b0" by simp
  have cnt: "mem_cntr b = length ts"
  proof (cases "ts = []")
    case True
    with assms(4) i show ?thesis by simp
  next
    case False
    with assms(2) i have "0 < mem_size b0" by (cases ts) simp_all
    from store_all_shaped[OF this _ assms(3)] i assms(4) show ?thesis by auto
  qed
  note p = store_all_prefix[OF _ le assms(3,4)]
  have sl: "slice arr (length ts - m) (length ts) = drop (length ts - m) xs"
    if "take (length ts) arr = xs" and "m \<le> length ts" for arr :: "'a list" and xs m
  proof -
    from that have "length xs \<le> length ts" by auto
    have "slice arr (length ts - m) (length ts) = take m (drop (length ts - m) arr)"
      using that(2) by (simp add: slice_def)
    also have "\<dots> = drop (length ts - m) (take (length ts) arr)"
      using that(2) by (simp add: drop_take)
    finally show ?thesis using that(1) by simp
  qed
  have m: "(if length ts < bs then length ts else bs) = min (length ts) bs" by simp
  from p i have t5: "take (length ts) (state_memory b) = map (\<lambda>(s, a, r, os, oa). s) ts"
    "take (length ts) (action_memory b) = map (\<lambda>(s, a, r, os, oa). a) ts"
    "take (length ts) (reward_memory b) = map (\<lambda>(s, a, r, os, oa). r) ts"
    "take (length ts) (others_states b) = map (\<lambda>(s, a, r, os, oa). os) ts"
    "take (length ts) (others_actions b) = map (\<lambda>(s, a, r, os, oa). oa) ts"
    by simp_all
  show ?thesis
    unfolding sample_last_buffer_def Let_def cnt m
    by (simp add: sl[OF t5(1)] sl[OF t5(2)] sl[OF t5(3)] sl[OF t5(4)] sl[OF t5(5)] drop_map)
qed


section \<open>Shapes: the calls return\<close>

text \<open>
  On networks and batches of the shapes the constructors and the buffers give them, in a
  game with one observation per agent and at least two agents, nothing raises:
  \<open>choose_action\<close> returns, and the learning step computes its regression target.
\<close>

lemma linear_shaped:
  assumes "layer_shaped n_in n_out layer" and "length x = n_in"
  shows "\<exists>y. linear layer x = Inr y \<and> length y = n_out"
  using assms by (simp add: linear_def layer_shaped_def has_shape_def)

lemma actor_forward_row_shaped:
  assumes "ActorNetwork_shaped d h1 h2 k net" and "length x = d"
  shows "\<exists>y. actor_forward_row net x = Inr y \<and> length y = k"
proof -
  from assms(1) have l: "layer_shaped d h1 (ActorNetwork.fc1 net)"
    "layer_shaped h1 h2 (ActorNetwork.fc2 net)" "layer_shaped h2 k (mu net)"
    by (simp_all add: ActorNetwork_shaped_def)
  from linear_shaped[OF l(1) assms(2)] obtain y1 where
    y1: "linear (ActorNetwork.fc1 net) x = Inr y1" "length y1 = h1" by blast
  from linear_shaped[OF l(2), of "map relu y1"] y1 obtain y2 where
    y2: "linear (ActorNetwork.fc2 net) (map relu y1) = Inr y2" "length y2 = h2" by auto
  from linear_shaped[OF l(3), of "map relu y2"] y2 obtain y3 where
    y3: "linear (mu net) (map relu y2) = Inr y3" "length y3 = k" by auto
  from y1 y2 y3 show ?thesis by (simp add: actor_forward_row_def bind_e_def)
qed

lemma critic_forward_row_shaped:
  assumes "CriticNetwork_shaped d h1 h2 k n False extra net" and "length x = n * (d + k)"
  shows "\<exists>v. critic_forward_row net x = Inr [v]"
proof -
  from assms(1) have l: "layer_shaped (n * (d + k)) h1 (CriticNetwork.fc1 net)"
    "layer_shaped h1 h2 (CriticNetwork.fc2 net)" "layer_shaped h2 1 (q net)"
    by (simp_all add: CriticNetwork_shaped_def)
  from linear_shaped[OF l(1) assms(2)] obtain y1 where
    y1: "linear (CriticNetwork.fc1 net) x = Inr y1" "length y1 = h1" by blast
  from linear_shaped[OF l(2), of "map relu y1"] y1 obtain y2 where
    y2: "linear (CriticNetwork.fc2 net) (map relu y1) = Inr y2" "length y2 = h2" by auto
  from linear_shaped[OF l(3), of "map relu y2"] y2 obtain y3 where
    y3: "linear (q net) (map relu y2) = Inr y3" "length y3 = 1" by auto
  from y3(2) obtain v where "y3 = [v]" by (cases y3) auto
  with y1 y2 y3 show ?thesis by (simp add: critic_forward_row_def bind_e_def)
qed

lemma map_e_total:
  assumes "\<And>x. x \<in> set xs \<Longrightarrow> \<exists>y. f x = Inr y \<and> P y"
  shows "\<exists>ys. map_e f xs = Inr ys \<and> length ys = length xs \<and> list_all P ys"
  using assms
proof (induction xs)
  case Nil
  then show ?case by simp
next
  case (Cons x xs)
  from Cons.prems[of x] obtain y where y: "f x = Inr y" "P y" by auto
  from Cons.IH Cons.prems obtain ys where "map_e f xs = Inr ys" "length ys = length xs"
    "list_all P ys" by auto
  with y show ?case by simp
qed

lemma choose_action_returns:
  assumes "ActorNetwork_shaped d h1 h2 k (actor a)" and "length observation = d"
    and "evaluation \<or> (0 \<le> noise_std a \<and> total_episodes a \<noteq> 0)"
  shows "\<exists>action. choose_action a observation episode evaluation z = Inr action"
proof -
  from actor_forward_row_shaped[OF assms(1,2)] obtain y where
    "actor_forward_row (actor a) observation = Inr y" by blast
  then have "actor_forward (actor a) [observation] = Inr [y]" by (simp add: actor_forward_def)
  with assms(3) show ?thesis
    by (auto simp: choose_action_def bind_e_def Let_def np_random_normal_def)
qed

lemma cat1_total:
  assumes "ts \<noteq> []" and "\<forall>u\<in>set ts. length u = m"
  shows "cat1 ts = Inr (map (\<lambda>j. concat (map (\<lambda>u. u ! j) ts)) [0..<m])"
  using assms by (cases ts) (auto simp: cat1_def list_all_iff)

lemma has_shape_row: "has_shape n w arr \<Longrightarrow> r \<in> set arr \<Longrightarrow> length r = w"
  by (simp add: has_shape_def list_all_iff)

lemma has_shapeI: "length arr = n \<Longrightarrow> list_all (\<lambda>r. length r = w) arr \<Longrightarrow> has_shape n w arr"
  by (simp add: has_shape_def)

lemma actor_forward_shaped:
  assumes "ActorNetwork_shaped d h1 h2 k net" and "has_shape bs d state"
  shows "\<exists>out. actor_forward net state = Inr out \<and> has_shape bs k out"
proof -
  have "\<exists>ys. map_e (actor_forward_row net) state = Inr ys \<and> length ys = length state \<and>
      list_all (\<lambda>y. length y = k) ys"
    by (rule map_e_total) (use assms in \<open>auto intro: actor_forward_row_shaped dest: has_shape_row\<close>)
  with assms(2) show ?thesis by (auto simp: actor_forward_def has_shape_def)
qed

lemma column_shaped:
  assumes "has_shape bs w arr" and "i < w"
  shows "\<exists>col. column arr i = Inr col \<and> has_shape bs 1 col"
proof -
  have "\<exists>ys. map_e (\<lambda>row. if i < length row then Inr [row ! i] else Inl IndexError) arr = Inr ys \<and>
      length ys = length arr \<and> list_all (\<lambda>y. length y = 1) ys"
    by (rule map_e_total) (use assms in \<open>auto dest: has_shape_row\<close>)
  with assms(1) show ?thesis by (auto simp: column_def has_shape_def)
qed

lemma length_concat_rows:
  assumes "\<forall>r\<in>set rows. length r = k"
  shows "length (concat rows) = length rows * k"
  using assms by (induction rows) simp_all

lemma cat1_shaped:
  assumes "ts \<noteq> []" and "\<forall>u\<in>set ts. has_shape bs k u"
  shows "\<exists>r. cat1 ts = Inr r \<and> has_shape bs (length ts * k) r"
proof -
  from assms(2) have len: "\<forall>u\<in>set ts. length u = bs" by (simp add: has_shape_def)
  have "length (concat (map (\<lambda>u. u ! j) ts)) = length ts * k" if "j < bs" for j
  proof -
    have "\<forall>r\<in>set (map (\<lambda>u. u ! j) ts). length r = k"
      using assms(2) that by (auto simp: has_shape_def list_all_length)
    from length_concat_rows[OF this] show ?thesis by simp
  qed
  then have "has_shape bs (length ts * k) (map (\<lambda>j. concat (map (\<lambda>u. u ! j) ts)) [0..<bs])"
    by (simp add: has_shape_def list_all_iff)
  with cat1_total[OF assms(1) len] show ?thesis by simp
qed

lemma others_target_actions_shaped:
  assumes n: "2 \<le> n" "idx < n" "length ags = n"
    and nets: "\<forall>ag\<in>set ags. ActorNetwork_shaped 1 h1 h2 k (target_actor ag)"
    and os: "has_shape bs (n - 1) others_s"
  shows "\<exists>ota. others_target_actions_of ags n idx others_s = Inr ota \<and>
     has_shape bs ((n - 1) * k) ota"
proof -
  let ?f = "\<lambda>i. bind_e (column others_s i) (\<lambda>other_state_column.
              bind_e (nth_e ags (remove1 idx [0..<n] ! i)) (\<lambda>other_agent.
                actor_forward (target_actor other_agent) other_state_column))"
  have each: "\<exists>y. ?f i = Inr y \<and> has_shape bs k y" if "i \<in> set [0..<n - 1]" for i
  proof -
    from that have i: "i < n - 1" by simp
    from column_shaped[OF os i] obtain col where
      col: "column others_s i = Inr col" "has_shape bs 1 col" by blast
    from remove1_upt_nth[OF n(2) i] i have "remove1 idx [0..<n] ! i < n"
      by (cases "i < idx") auto
    with n(3) have ag: "nth_e ags (remove1 idx [0..<n] ! i) = Inr (ags ! (remove1 idx [0..<n] ! i))"
      "ags ! (remove1 idx [0..<n] ! i) \<in> set ags" by (simp_all add: nth_e_def)
    from nets ag(2) have "ActorNetwork_shaped 1 h1 h2 k
        (target_actor (ags ! (remove1 idx [0..<n] ! i)))" by blast
    from actor_forward_shaped[OF this col(2)] col(1) ag(1) show ?thesis
      by (auto simp: bind_e_def)
  qed
  from map_e_total[of "[0..<n - 1]" ?f "has_shape bs k", OF each] obtain tal where
    tal: "map_e ?f [0..<n - 1] = Inr tal" "length tal = n - 1" "list_all (has_shape bs k) tal"
    by auto
  from tal(2) n(1) have ne: "tal \<noteq> []" by auto
  from tal(3) have "\<forall>u\<in>set tal. has_shape bs k u" by (simp add: list_all_iff)
  from cat1_shaped[OF ne this] tal(2) obtain r where
    "cat1 tal = Inr r" "has_shape bs ((n - 1) * k) r" by auto
  with tal(1) n(2) show ?thesis
    by (simp add: others_target_actions_of_def Let_def bind_e_def)
qed

lemma critic_forward_shaped:
  assumes "CriticNetwork_shaped 1 c1 c2 k n False extra net" and "1 \<le> n"
    and "has_shape bs 1 state" and "has_shape bs k action"
    and "has_shape bs (n - 1) others_s" and "has_shape bs ((n - 1) * k) others_a"
  shows "\<exists>cv. critic_forward net state action others_s others_a = Inr cv \<and>
     length cv = bs \<and> list_all (\<lambda>y. \<exists>v. y = [v]) cv"
proof -
  let ?ts = "[state, action, others_s, others_a]"
  from assms(3-6) have len: "\<forall>u\<in>set ?ts. length u = bs" by (simp add: has_shape_def)
  let ?x = "map (\<lambda>j. concat (map (\<lambda>u. u ! j) ?ts)) [0..<bs]"
  from cat1_total[OF _ len] have cat: "cat1 ?ts = Inr ?x" by simp
  have w: "1 + k + (n - 1) + (n - 1) * k = n * (1 + k)"
    using assms(2) by (cases n) simp_all
  have rows: "\<exists>y. critic_forward_row net r = Inr y \<and> (\<exists>v. y = [v])" if "r \<in> set ?x" for r
  proof -
    from that obtain j where j: "j < bs" "r = state ! j @ action ! j @ others_s ! j @ others_a ! j"
      by auto
    with assms(3-6) have "length r = 1 + k + (n - 1) + (n - 1) * k"
      by (simp add: has_shape_def list_all_length)
    with w have "length r = n * (1 + k)" by simp
    from critic_forward_row_shaped[OF assms(1) this] show ?thesis by blast
  qed
  from map_e_total[of ?x "critic_forward_row net" "\<lambda>y. \<exists>v. y = [v]", OF rows] cat
  show ?thesis by (auto simp: critic_forward_def bind_e_def)
qed

lemma critic_targets_total:
  assumes "length reward = bs" and "length cv = bs" and "list_all (\<lambda>y. \<exists>v. y = [v]) cv"
  shows "\<exists>target. critic_targets g bs reward cv = Inr target"
proof -
  let ?f = "\<lambda>j. if j < length reward \<and> j < length cv
       then (case cv ! j of [v] \<Rightarrow> Inr (reward ! j + g * v) | _ \<Rightarrow> Inl ValueError)
       else Inl IndexError"
  have "\<exists>y. ?f j = Inr y \<and> True" if "j \<in> set [0..<bs]" for j
  proof -
    from that assms have "j < length reward" "j < length cv" by simp_all
    moreover from assms(3) \<open>j < length cv\<close> obtain v where "cv ! j = [v]"
      by (auto simp: list_all_length)
    ultimately show ?thesis by simp
  qed
  from map_e_total[of "[0..<bs]" ?f "\<lambda>y. True", OF this] show ?thesis
    unfolding critic_targets_def by blast
qed

lemma learn_target_returns:
  assumes n: "2 \<le> num_agents m" "idx < num_agents m" "length (agents m) = num_agents m"
    and nets: "\<forall>ag\<in>set (agents m).
        ActorNetwork_shaped 1 h1 h2 k (target_actor ag) \<and>
        CriticNetwork_shaped 1 c1 c2 k (num_agents m) False extra (target_critic ag) \<and>
        CriticNetwork_shaped 1 c1 c2 k (num_agents m) False extra (critic ag)"
    and batch: "has_shape (MADDPG.batch_size m) 1 state" "has_shape (MADDPG.batch_size m) k action"
      "length reward = MADDPG.batch_size m"
      "has_shape (MADDPG.batch_size m) (num_agents m - 1) others_s"
      "has_shape (MADDPG.batch_size m) (k * (num_agents m - 1)) others_a"
  shows "\<exists>target. learn_target m idx False num_tiles (state, action, reward, others_s, others_a)
     = Inr target"
proof -
  let ?bs = "MADDPG.batch_size m" and ?n = "num_agents m"
  from n have ag: "nth_e (agents m) idx = Inr (agents m ! idx)" "agents m ! idx \<in> set (agents m)"
    by (simp_all add: nth_e_def)
  let ?agent = "agents m ! idx"
  from nets ag(2) have sh: "ActorNetwork_shaped 1 h1 h2 k (target_actor ?agent)"
    "CriticNetwork_shaped 1 c1 c2 k ?n False extra (target_critic ?agent)"
    "CriticNetwork_shaped 1 c1 c2 k ?n False extra (critic ?agent)" by blast+
  from actor_forward_shaped[OF sh(1) batch(1)] obtain ta where
    ta: "actor_forward (target_actor ?agent) state = Inr ta" "has_shape ?bs k ta" by blast
  from nets have "\<forall>ag\<in>set (agents m). ActorNetwork_shaped 1 h1 h2 k (target_actor ag)" by blast
  from others_target_actions_shaped[OF n this batch(4)] obtain ota where
    ota: "others_target_actions_of (agents m) ?n idx others_s = Inr ota"
    "has_shape ?bs ((?n - 1) * k) ota" by blast
  from n(1) have n1: "1 \<le> ?n" by simp
  from critic_forward_shaped[OF sh(2) n1 batch(1) ta(2) batch(4) ota(2)] obtain cvt where
    cvt: "critic_forward (target_critic ?agent) state ta others_s ota = Inr cvt"
    "length cvt = ?bs" "list_all (\<lambda>y. \<exists>v. y = [v]) cvt" by blast
  from batch(5) have oa: "has_shape ?bs ((?n - 1) * k) others_a" by (simp add: mult.commute)
  from critic_forward_shaped[OF sh(3) n1 batch(1,2,4) oa] obtain cv where
    cv: "critic_forward (critic ?agent) state action others_s others_a = Inr cv" by blast
  from critic_targets_total[OF batch(3) cvt(2,3)] obtain target where
    "critic_targets (MADDPG.gamma m) ?bs reward cvt = Inr target" by blast
  with ag(1) ta(1) ota(1) cvt(1) cv show ?thesis
    by (simp add: learn_target_def bind_e_def)
qed

end
